theory Spec2Isabelle
  imports Complex_Main "HOL-Library.Sublist"
begin

section \<open>Characters and strings as Python sees them\<close>

text \<open>
  A \<^typ>\<open>char\<close> is a code point below 256, and a string a sequence of them.  On these
  Python's \<^verbatim>\<open>str.isspace\<close> and the regular-expression class \<^verbatim>\<open>\s\<close> agree: the code
  points 9 to 13, 28 to 32, 133 (U+0085) and 160 (U+00A0).  The class \<^verbatim>\<open>\d\<close> is the
  ten digits, and the ranges \<^verbatim>\<open>a-z\<close> and \<^verbatim>\<open>A-Z\<close> of a pattern are the ASCII letters.
\<close>

definition code :: "char \<Rightarrow> nat" where
  "code c = of_char c"

definition is_space :: "char \<Rightarrow> bool" where
  "is_space c =
     ((9 \<le> code c \<and> code c \<le> 13) \<or> (28 \<le> code c \<and> code c \<le> 32)
      \<or> code c = 133 \<or> code c = 160)"

definition is_digit :: "char \<Rightarrow> bool" where
  "is_digit c = (48 \<le> code c \<and> code c \<le> 57)"

definition is_upper :: "char \<Rightarrow> bool" where
  "is_upper c = (65 \<le> code c \<and> code c \<le> 90)"

definition is_lower :: "char \<Rightarrow> bool" where
  "is_lower c = (97 \<le> code c \<and> code c \<le> 122)"

definition is_alpha :: "char \<Rightarrow> bool" where
  "is_alpha c = (is_upper c \<or> is_lower c)"

definition to_lower :: "char \<Rightarrow> char" where
  "to_lower c = (if is_upper c then char_of (code c + 32) else c)"

definition to_upper :: "char \<Rightarrow> char" where
  "to_upper c = (if is_lower c then char_of (code c - 32) else c)"

text \<open>\<^verbatim>\<open>s.strip()\<close>: drop the whitespace at both ends.\<close>

definition strip :: "string \<Rightarrow> string" where
  "strip s = rev (dropWhile is_space (rev (dropWhile is_space s)))"

text \<open>
  \<^verbatim>\<open>s.lower()\<close>.  Below 256 the letters with a lower case are the ASCII capitals and
  the code points 192 to 222 without 215, and the lower case is 32 further on.
\<close>

definition lower_char :: "char \<Rightarrow> char" where
  "lower_char c =
     (if is_upper c \<or> (192 \<le> code c \<and> code c \<le> 222 \<and> code c \<noteq> 215)
      then char_of (code c + 32) else c)"

definition lower :: "string \<Rightarrow> string" where
  "lower s = map lower_char s"

text \<open>
  \<^verbatim>\<open>s.title()\<close> takes some code points below 256 out of that range, so it is a
  parameter of the model (see \<open>py_title\<close> below).  On ASCII strings it is this: a letter
  that follows a letter is lowered, any other letter is raised; the flag says whether
  the previous character was a letter.
\<close>

fun title_from :: "bool \<Rightarrow> string \<Rightarrow> string" where
  "title_from prev [] = []"
| "title_from prev (c # cs) =
     (if is_alpha c then (if prev then to_lower c else to_upper c) # title_from True cs
      else c # title_from False cs)"

definition ascii_title :: "string \<Rightarrow> string" where
  "ascii_title s = title_from False s"

text \<open>\<^verbatim>\<open>re.sub(r'\s+', ' ', s)\<close>: every maximal run of whitespace becomes one blank;
  the flag says whether the previous character was whitespace.\<close>

fun collapse_from :: "bool \<Rightarrow> string \<Rightarrow> string" where
  "collapse_from prev [] = []"
| "collapse_from prev (c # cs) =
     (if is_space c then
        (if prev then collapse_from True cs else CHR '' '' # collapse_from True cs)
      else c # collapse_from False cs)"

definition collapse_ws :: "string \<Rightarrow> string" where
  "collapse_ws s = collapse_from False s"

text \<open>
  The anchor \<^verbatim>\<open>$\<close> of a pattern without flags matches at the end of the string and
  just before a newline that ends the string.
\<close>

definition at_end :: "string \<Rightarrow> bool" where
  "at_end rest = (rest = [] \<or> rest = [CHR 0x0A])"

section \<open>Validators of the transform module\<close>

text \<open>
  The class constants of \<^verbatim>\<open>DataTransformer\<close> and the sets written inside the field
  validators of \<^verbatim>\<open>StudentCreate\<close> in the request-serving layer.
\<close>

definition VALID_GENDERS :: "string set" where
  "VALID_GENDERS = {''Male'', ''Female'', ''Other'', ''Prefer not to say''}"

definition VALID_STATUSES :: "string set" where
  "VALID_STATUSES = {''Active'', ''Inactive'', ''Graduated'', ''Suspended'', ''On Leave''}"

definition VALID_DEPARTMENTS :: "string set" where
  "VALID_DEPARTMENTS = {''CS'', ''MATH'', ''PHY'', ''ENG'', ''BIO'', ''CHEM'', ''ECON'', ''PSY''}"

definition valid_genders :: "string set" where
  "valid_genders = {''Male'', ''Female'', ''Other'', ''Prefer not to say''}"

definition valid_depts :: "string set" where
  "valid_depts = {''CS'', ''MATH'', ''PHY'', ''ENG'', ''BIO'', ''CHEM'', ''ECON'', ''PSY''}"

text \<open>
  \<^verbatim>\<open>EMAIL_PATTERN = ^[a-zA-Z0-9._%+-]+@[a-zA-Z0-9.-]+\.[a-zA-Z]{2,}$\<close>, tried with
  \<^verbatim>\<open>match\<close>: the string splits at an index \<open>i\<close> holding the at-sign and an index
  \<open>j\<close> holding a dot, with a non-empty local part before \<open>i\<close>, a non-empty domain
  between them, and after \<open>j\<close> at least two letters up to the end.
\<close>

definition local_char :: "char \<Rightarrow> bool" where
  "local_char c = (is_alpha c \<or> is_digit c \<or> c \<in> set ''._%+-'')"

definition domain_char :: "char \<Rightarrow> bool" where
  "domain_char c = (is_alpha c \<or> is_digit c \<or> c \<in> set ''.-'')"

definition tld_match :: "string \<Rightarrow> bool" where
  "tld_match t = (2 \<le> length (takeWhile is_alpha t) \<and> at_end (dropWhile is_alpha t))"

definition EMAIL_PATTERN_match :: "string \<Rightarrow> bool" where
  "EMAIL_PATTERN_match s =
     list_ex (\<lambda>i. list_ex (\<lambda>j.
         0 < i \<and> list_all local_char (take i s) \<and> s ! i = CHR ''@''
       \<and> i + 1 < j \<and> list_all domain_char (take (j - (i + 1)) (drop (i + 1) s))
       \<and> s ! j = CHR ''.''
       \<and> tld_match (drop (j + 1) s)) [0..<length s]) [0..<length s]"

text \<open>
  The argument of a validator of text is a string, or a value of which \<^verbatim>\<open>pd.isna\<close>
  holds (\<open>None\<close>).
\<close>

definition validate_email :: "string option \<Rightarrow> bool" where
  "validate_email email =
     (case email of None \<Rightarrow> False | Some s \<Rightarrow> EMAIL_PATTERN_match (strip s))"

text \<open>
  \<^verbatim>\<open>validate_phone\<close>.  The character class of the substitution is written
  \<^verbatim>\<open>[\s\-$$$$\+]\<close> in the source: whitespace, the dash, the dollar sign and the plus.
  The digits pattern \<^verbatim>\<open>^\d{10,15}$\<close> takes between ten and fifteen digits and must
  then stand at the end.
\<close>

definition phone_format_char :: "char \<Rightarrow> bool" where
  "phone_format_char c = (is_space c \<or> c = CHR ''-'' \<or> c = CHR ''$'' \<or> c = CHR ''+'')"

definition digits_10_15_match :: "string \<Rightarrow> bool" where
  "digits_10_15_match s =
     list_ex (\<lambda>k. k \<le> length s \<and> list_all is_digit (take k s) \<and> at_end (drop k s))
       [10..<16]"

definition validate_phone :: "string option \<Rightarrow> bool" where
  "validate_phone phone =
     (case phone of
        None \<Rightarrow> True
      | Some s \<Rightarrow>
          if strip s = [] then True
          else digits_10_15_match (filter (\<lambda>c. \<not> phone_format_char c) s))"

section \<open>Cells, rows and tables\<close>

text \<open>
  A float is finite, one of the two infinities, or NaN.  Comparison, \<^verbatim>\<open>min\<close> and
  \<^verbatim>\<open>max\<close> of floats are exact, so a finite float is modelled by the real it denotes.
\<close>

datatype fl = Fin real | PInf | NInf | NaN

text \<open>
  An untyped scalar: Python's \<^verbatim>\<open>None\<close> (\<open>NA\<close>), a float, a string, a date (year, month,
  day), pandas' \<^verbatim>\<open>NaT\<close> and pandas' \<^verbatim>\<open>pd.NA\<close>.  \<^verbatim>\<open>pd.isna\<close> holds of \<^verbatim>\<open>None\<close>, of the
  float NaN, of \<^verbatim>\<open>NaT\<close> and of \<^verbatim>\<open>pd.NA\<close>; they are different values all the same, and
  only \<^verbatim>\<open>None\<close> is SQL's \<^verbatim>\<open>NULL\<close> to the database driver.
\<close>

datatype cell = NA | Num fl | Str string | Date int int int | NaT | PdNA

definition isna :: "cell \<Rightarrow> bool" where
  "isna v = (v = NA \<or> v = Num NaN \<or> v = NaT \<or> v = PdNA)"

text \<open>What parsing a string as a number gives: a failure, or a float (which may be NaN).\<close>

datatype parsed = Bad | Val fl

text \<open>
  The library functions whose results the module relies on and whose code is outside
  the repository:
  \<^item> \<open>py_float\<close>: Python's \<^verbatim>\<open>float(s)\<close> on a string (\<open>Bad\<close> is the \<^verbatim>\<open>ValueError\<close>);
  \<^item> \<open>pd_to_numeric\<close>: what \<^verbatim>\<open>pd.to_numeric(..., errors='coerce')\<close> reads in a string
    element (\<open>Bad\<close> is coerced to NaN);
  \<^item> \<open>pd_to_datetime\<close>: \<^verbatim>\<open>pd.to_datetime(column, errors='coerce').dt.date\<close>, given the
    whole column; the result is the value at each position, \<open>None\<close> when it raises;
  \<^item> \<open>py_title\<close>: \<^verbatim>\<open>str.title\<close>.
\<close>

record pandas =
  py_float :: "string \<Rightarrow> parsed"
  pd_to_numeric :: "string \<Rightarrow> parsed"
  pd_to_datetime :: "cell list \<Rightarrow> (nat \<Rightarrow> cell) option"
  py_title :: "string \<Rightarrow> string"

text \<open>
  One row of the students table.  A cell of a text column is a string or \<^verbatim>\<open>None\<close>; the
  columns that step 6 casts hold untyped scalars.  The transformer treats every missing
  text alike (\<^verbatim>\<open>pd.isna\<close>) and leaves \<^verbatim>\<open>None\<close> in the columns that it normalises; a
  table that holds NaN in the student code, the phone or the department code is not
  among the tables of the model.
\<close>

record student_row =
  student_code :: "string option"
  first_name :: "string option"
  last_name :: "string option"
  email :: "string option"
  date_of_birth :: cell
  gender :: "string option"
  phone :: "string option"
  department_code :: "string option"
  graduation_year :: cell
  gpa :: cell

text \<open>
  A DataFrame: the names of its columns, and its rows in order, each with its index
  label.  A field of a row whose column is not among \<open>columns\<close> is not part of the
  table.  Filtering keeps the labels of the rows it keeps.
\<close>

record dataframe =
  columns :: "string list"
  rows :: "(int \<times> student_row) list"

definition text_cell :: "string option \<Rightarrow> cell" where
  "text_cell v = (case v of None \<Rightarrow> NA | Some s \<Rightarrow> Str s)"

text \<open>\<^verbatim>\<open>row.get(column)\<close> for the columns of the students table.\<close>

definition row_get :: "string \<Rightarrow> student_row \<Rightarrow> cell" where
  "row_get c r =
     (if c = ''student_code'' then text_cell (student_code r)
      else if c = ''first_name'' then text_cell (first_name r)
      else if c = ''last_name'' then text_cell (last_name r)
      else if c = ''email'' then text_cell (email r)
      else if c = ''date_of_birth'' then date_of_birth r
      else if c = ''gender'' then text_cell (gender r)
      else if c = ''phone'' then text_cell (phone r)
      else if c = ''department_code'' then text_cell (department_code r)
      else if c = ''graduation_year'' then graduation_year r
      else if c = ''gpa'' then gpa r
      else NA)"

text \<open>
  The exceptions: those that the code of the repository raises itself or provokes, and
  \<open>Failure\<close> with its message for any other that a library raises.
\<close>

datatype exn =
  KeyError string | ValueError string | ZeroDivisionError | ConnectionError | Failure string

section \<open>The transformer\<close>

text \<open>
  An entry of \<^verbatim>\<open>validation_errors\<close>.  The entries of steps 2 to 5 carry the row label
  and the offending value; the entry of a failed cast carries neither.  The message is
  kept as its kind.
\<close>

datatype err_kind =
  InvalidEmailFormat | InvalidGPA | InvalidDepartmentCode | InvalidGender | TypeCastingFailed

record validation_error =
  err_row :: "int option"
  err_column :: string
  err_value :: cell
  err_error :: err_kind

text \<open>
  An entry of \<^verbatim>\<open>transformation_log\<close>: \<^verbatim>\<open>"Deduplication: removed n records"\<close> or
  \<^verbatim>\<open>"Removed n invalid records"\<close>.
\<close>

datatype log_entry = DedupRemoved nat | InvalidRemoved nat

record transformer =
  validation_errors :: "validation_error list"
  transformation_log :: "log_entry list"

text \<open>\<open>a <= b\<close> on floats: false as soon as one of them is NaN.\<close>

definition fl_le :: "fl \<Rightarrow> fl \<Rightarrow> bool" where
  "fl_le a b =
     (if a = NaN \<or> b = NaN then False
      else if a = NInf \<or> b = PInf then True
      else case (a, b) of (Fin x, Fin y) \<Rightarrow> x \<le> y | _ \<Rightarrow> False)"

text \<open>
  \<^verbatim>\<open>validate_gpa\<close>: \<^verbatim>\<open>float(gpa)\<close> is the number itself, the parse of a string, and a
  \<^verbatim>\<open>TypeError\<close> for a date.
\<close>

definition validate_gpa :: "pandas \<Rightarrow> cell \<Rightarrow> bool" where
  "validate_gpa L g =
     (if isna g then True
      else case g of
             Num x \<Rightarrow> fl_le (Fin 0) x \<and> fl_le x (Fin 4)
           | Str s \<Rightarrow> (case py_float L s of
                         Val x \<Rightarrow> fl_le (Fin 0) x \<and> fl_le x (Fin 4)
                       | Bad \<Rightarrow> False)
           | _ \<Rightarrow> False)"

definition clean_string :: "string option \<Rightarrow> string option" where
  "clean_string v =
     (case v of
        None \<Rightarrow> None
      | Some s \<Rightarrow> (let cleaned = collapse_ws (strip s)
                  in if cleaned \<noteq> [] then Some cleaned else None))"

definition normalize_name :: "pandas \<Rightarrow> string option \<Rightarrow> string option" where
  "normalize_name L name =
     (case clean_string name of Some cleaned \<Rightarrow> Some (py_title L cleaned) | None \<Rightarrow> None)"

definition normalize_email :: "string option \<Rightarrow> string option" where
  "normalize_email e =
     (case clean_string e of Some cleaned \<Rightarrow> Some (lower cleaned) | None \<Rightarrow> None)"

text \<open>
  \<^verbatim>\<open>drop_duplicates(subset, keep)\<close>: rows are compared by the values of the subset's
  columns, two absent values being equal.  With \<open>KeepFirst\<close> a row stays when no
  earlier row has its key.
\<close>

datatype keep = KeepFirst | KeepLast | KeepNone

fun drop_dups :: "('a \<Rightarrow> 'k) \<Rightarrow> 'k list \<Rightarrow> 'a list \<Rightarrow> 'a list" where
  "drop_dups key seen [] = []"
| "drop_dups key seen (x # xs) =
     (if key x \<in> set seen then drop_dups key seen xs
      else x # drop_dups key (key x # seen) xs)"

definition drop_duplicates :: "('a \<Rightarrow> 'k) \<Rightarrow> keep \<Rightarrow> 'a list \<Rightarrow> 'a list" where
  "drop_duplicates key k xs =
     (case k of
        KeepFirst \<Rightarrow> drop_dups key [] xs
      | KeepLast \<Rightarrow> rev (drop_dups key [] (rev xs))
      | KeepNone \<Rightarrow> filter (\<lambda>x. length (filter (\<lambda>y. key y = key x) xs) = 1) xs)"

definition subset_key :: "string list \<Rightarrow> int \<times> student_row \<Rightarrow> cell list" where
  "subset_key subset_cols ir = map (\<lambda>c. row_get c (snd ir)) subset_cols"

text \<open>
  A method of the transformer that raises leaves the transformer as it is at that
  moment: the result is the exception with the state, or the table with the state.
\<close>

definition deduplicate ::
  "transformer \<Rightarrow> dataframe \<Rightarrow> string list \<Rightarrow> keep \<Rightarrow>
   (exn \<times> transformer) + (dataframe \<times> transformer)" where
  "deduplicate T df subset_cols k =
     (case filter (\<lambda>c. c \<notin> set (columns df)) subset_cols of
        c # _ \<Rightarrow> Inl (KeyError c, T)
      | [] \<Rightarrow>
         (let initial_count = length (rows df);
              df_deduped = df\<lparr>rows := drop_duplicates (subset_key subset_cols) k (rows df)\<rparr>;
              removed_count = initial_count - length (rows df_deduped)
          in Inr (df_deduped,
                  if removed_count > 0
                  then T\<lparr>transformation_log :=
                           transformation_log T @ [DedupRemoved removed_count]\<rparr>
                  else T)))"

text \<open>
  \<^verbatim>\<open>pd.to_numeric(column, errors='coerce')\<close>, element by element: the result is a float;
  a number stays, a string is parsed, and \<^verbatim>\<open>None\<close> and anything that does not parse
  become the float NaN.
\<close>

definition to_numeric :: "pandas \<Rightarrow> cell \<Rightarrow> cell" where
  "to_numeric L v =
     (case v of
        Num x \<Rightarrow> Num x
      | Str s \<Rightarrow> (case pd_to_numeric L s of Val x \<Rightarrow> Num x | Bad \<Rightarrow> Num NaN)
      | _ \<Rightarrow> Num NaN)"

text \<open>\<^verbatim>\<open>Series.clip(lower, upper)\<close> on one element; NaN stays NaN.\<close>

definition clip :: "fl \<Rightarrow> fl \<Rightarrow> cell \<Rightarrow> cell" where
  "clip lo hi v =
     (case v of
        Num x \<Rightarrow> Num (if x = NaN then NaN
                      else if \<not> fl_le lo x then lo else if \<not> fl_le x hi then hi else x)
      | _ \<Rightarrow> v)"

text \<open>
  \<^verbatim>\<open>astype('Int64')\<close> on a float column raises unless every number of the column is
  NaN or a finite whole number; NaN becomes \<^verbatim>\<open>pd.NA\<close>.
\<close>

definition is_integral :: "cell \<Rightarrow> bool" where
  "is_integral v =
     (case v of Num NaN \<Rightarrow> True | Num (Fin x) \<Rightarrow> of_int \<lfloor>x\<rfloor> = x | _ \<Rightarrow> False)"

definition to_Int64 :: "cell \<Rightarrow> cell" where
  "to_Int64 v = (if v = Num NaN then PdNA else v)"

datatype dtype = DInt | DFloat | DDate

text \<open>
  The body of the \<^verbatim>\<open>try\<close> in \<^verbatim>\<open>cast_types\<close> for one column: the new value at each
  position, or \<open>None\<close> when the cast raises.  The branches for \<^verbatim>\<open>str\<close> and for an
  arbitrary dtype are not reached from \<^verbatim>\<open>transform_students\<close> and are left out.
\<close>

definition cast_column :: "pandas \<Rightarrow> dtype \<Rightarrow> cell list \<Rightarrow> (nat \<Rightarrow> cell) option" where
  "cast_column L dt col =
     (case dt of
        DInt \<Rightarrow> (let vs = map (to_numeric L) col
                 in if list_all is_integral vs then Some (\<lambda>k. to_Int64 (vs ! k)) else None)
      | DFloat \<Rightarrow> Some (\<lambda>k. to_numeric L (col ! k))
      | DDate \<Rightarrow> pd_to_datetime L col)"

text \<open>Assignment to one of the three columns that are cast.\<close>

definition set_cell :: "string \<Rightarrow> cell \<Rightarrow> student_row \<Rightarrow> student_row" where
  "set_cell c v r =
     (if c = ''graduation_year'' then r\<lparr>graduation_year := v\<rparr>
      else if c = ''gpa'' then r\<lparr>gpa := v\<rparr>
      else if c = ''date_of_birth'' then r\<lparr>date_of_birth := v\<rparr>
      else r)"

definition assign_column :: "string \<Rightarrow> (nat \<Rightarrow> cell) \<Rightarrow> dataframe \<Rightarrow> dataframe" where
  "assign_column c f df =
     df\<lparr>rows := map (\<lambda>(k, (i, r)). (i, set_cell c (f k) r)) (enumerate 0 (rows df))\<rparr>"

fun cast_types ::
  "pandas \<Rightarrow> transformer \<Rightarrow> dataframe \<Rightarrow> (string \<times> dtype) list \<Rightarrow> dataframe \<times> transformer" where
  "cast_types L T df [] = (df, T)"
| "cast_types L T df ((column, dt) # rest) =
     (if column \<notin> set (columns df) then cast_types L T df rest
      else case cast_column L dt (map (\<lambda>ir. row_get column (snd ir)) (rows df)) of
             Some f \<Rightarrow> cast_types L T (assign_column column f df) rest
           | None \<Rightarrow>
               cast_types L
                 (T\<lparr>validation_errors := validation_errors T @
                      [\<lparr>err_row = None, err_column = column, err_value = NA,
                        err_error = TypeCastingFailed\<rparr>]\<rparr>)
                 df rest)"

definition map_rows :: "(student_row \<Rightarrow> student_row) \<Rightarrow> dataframe \<Rightarrow> dataframe" where
  "map_rows f df = df\<lparr>rows := map (\<lambda>(i, r). (i, f r)) (rows df)\<rparr>"

text \<open>
  The loop \<^verbatim>\<open>for idx, row in invalid.iterrows(): validation_errors.append(...)\<close> over
  the rows that a mask selects.
\<close>

definition report_rows ::
  "(student_row \<Rightarrow> bool) \<Rightarrow> string \<Rightarrow> err_kind \<Rightarrow> dataframe \<Rightarrow> validation_error list" where
  "report_rows bad c kind df =
     map (\<lambda>(i, r). \<lparr>err_row = Some i, err_column = c, err_value = row_get c r,
                     err_error = kind\<rparr>)
       (filter (\<lambda>(i, r). bad r) (rows df))"

definition add_errors :: "validation_error list \<Rightarrow> transformer \<Rightarrow> transformer" where
  "add_errors es T = T\<lparr>validation_errors := validation_errors T @ es\<rparr>"

text \<open>Step 1: clean the string fields.\<close>

definition step1_clean :: "pandas \<Rightarrow> dataframe \<Rightarrow> dataframe" where
  "step1_clean L df =
     (let df1 = (if ''first_name'' \<in> set (columns df)
                 then map_rows (\<lambda>r. r\<lparr>first_name := normalize_name L (first_name r)\<rparr>) df
                 else df);
          df2 = (if ''last_name'' \<in> set (columns df1)
                 then map_rows (\<lambda>r. r\<lparr>last_name := normalize_name L (last_name r)\<rparr>) df1
                 else df1)
      in if ''email'' \<in> set (columns df2)
         then map_rows (\<lambda>r. r\<lparr>email := normalize_email (email r)\<rparr>) df2
         else df2)"

text \<open>Step 2: report the invalid emails; the rows stay.\<close>

definition step2_emails :: "dataframe \<Rightarrow> transformer \<Rightarrow> transformer" where
  "step2_emails df T =
     (if ''email'' \<in> set (columns df)
      then add_errors
             (report_rows (\<lambda>r. \<not> validate_email (email r)) ''email'' InvalidEmailFormat df) T
      else T)"

text \<open>Step 3: report the invalid GPA values, then make the column numeric and clip it.\<close>

definition step3_gpa :: "pandas \<Rightarrow> dataframe \<Rightarrow> transformer \<Rightarrow> dataframe \<times> transformer" where
  "step3_gpa L df T =
     (if ''gpa'' \<in> set (columns df)
      then (map_rows (\<lambda>r. r\<lparr>gpa := clip (Fin 0) (Fin 4) (to_numeric L (gpa r))\<rparr>) df,
            add_errors (report_rows (\<lambda>r. \<not> validate_gpa L (gpa r)) ''gpa'' InvalidGPA df) T)
      else (df, T))"

text \<open>Step 4: report the unknown department codes.\<close>

definition step4_departments :: "dataframe \<Rightarrow> transformer \<Rightarrow> transformer" where
  "step4_departments df T =
     (if ''department_code'' \<in> set (columns df)
      then add_errors
             (report_rows
                (\<lambda>r. case department_code r of
                        None \<Rightarrow> False | Some d \<Rightarrow> d \<notin> VALID_DEPARTMENTS)
                ''department_code'' InvalidDepartmentCode df) T
      else T)"

text \<open>Step 5: normalise the gender values and report the unknown ones.\<close>

definition step5_gender ::
  "pandas \<Rightarrow> dataframe \<Rightarrow> transformer \<Rightarrow> dataframe \<times> transformer" where
  "step5_gender L df T =
     (if ''gender'' \<in> set (columns df)
      then (let df' = map_rows
                        (\<lambda>r. r\<lparr>gender := (case gender r of
                                            Some x \<Rightarrow> Some (py_title L (strip x))
                                          | None \<Rightarrow> None)\<rparr>) df
            in (df', add_errors
                       (report_rows
                          (\<lambda>r. case gender r of
                                  None \<Rightarrow> False | Some g \<Rightarrow> g \<notin> VALID_GENDERS)
                          ''gender'' InvalidGender df') T))
      else (df, T))"

text \<open>Step 6: the type mapping, in the order of the dictionary.\<close>

definition type_mapping :: "(string \<times> dtype) list" where
  "type_mapping = [(''graduation_year'', DInt), (''gpa'', DFloat), (''date_of_birth'', DDate)]"

text \<open>Step 7: deduplicate by email, then by student code, keeping first occurrences.\<close>

definition step7_dedup ::
  "dataframe \<Rightarrow> transformer \<Rightarrow> (exn \<times> transformer) + (dataframe \<times> transformer)" where
  "step7_dedup df T =
     (case (if ''email'' \<in> set (columns df)
            then deduplicate T df [''email''] KeepFirst else Inr (df, T)) of
        Inl e \<Rightarrow> Inl e
      | Inr (df1, T1) \<Rightarrow>
          (if ''student_code'' \<in> set (columns df1)
           then deduplicate T1 df1 [''student_code''] KeepFirst else Inr (df1, T1)))"

text \<open>
  Step 8: keep the rows whose email is valid.  The column is read without a test for
  its presence, so a table without it raises \<^verbatim>\<open>KeyError\<close>; the entries that the
  earlier steps appended to \<^verbatim>\<open>validation_errors\<close> are in the transformer then too.
\<close>

definition step8_filter ::
  "dataframe \<Rightarrow> transformer \<Rightarrow> (exn \<times> transformer) + (dataframe \<times> transformer)" where
  "step8_filter df T =
     (if ''email'' \<notin> set (columns df) then Inl (KeyError ''email'', T)
      else (let valid_df = df\<lparr>rows := filter (\<lambda>(i, r). validate_email (email r)) (rows df)\<rparr>;
                removed = length (rows df) - length (rows valid_df)
            in Inr (valid_df,
                    if removed > 0
                    then T\<lparr>transformation_log := transformation_log T @ [InvalidRemoved removed]\<rparr>
                    else T)))"

text \<open>The table and the transformer state after steps 1 to 6.\<close>

definition before_dedup :: "pandas \<Rightarrow> dataframe \<Rightarrow> dataframe \<times> transformer" where
  "before_dedup L df =
     (let T0 = \<lparr>validation_errors = [], transformation_log = []\<rparr>;
          df1 = step1_clean L df;
          T2 = step2_emails df1 T0;
          (df3, T3) = step3_gpa L df1 T2;
          T4 = step4_departments df3 T3;
          (df5, T5) = step5_gender L df3 T4
      in cast_types L T5 df5 type_mapping)"

text \<open>The table and the transformer state after step 7.\<close>

definition dedup_stage ::
  "pandas \<Rightarrow> dataframe \<Rightarrow> (exn \<times> transformer) + (dataframe \<times> transformer)" where
  "dedup_stage L df = (case before_dedup L df of (df6, T6) \<Rightarrow> step7_dedup df6 T6)"

definition transform_students ::
  "pandas \<Rightarrow> dataframe \<Rightarrow> (exn \<times> transformer) + (dataframe \<times> transformer)" where
  "transform_students L df =
     (case dedup_stage L df of
        Inl e \<Rightarrow> Inl e
      | Inr (df7, T7) \<Rightarrow> step8_filter df7 T7)"

text \<open>
  What step 3 leaves in the GPA field of one row: the value made numeric, then clipped.
  A cell is numeric when it is a float.
\<close>

definition coerce_gpa :: "pandas \<Rightarrow> cell \<Rightarrow> cell" where
  "coerce_gpa L g = clip (Fin 0) (Fin 4) (to_numeric L g)"

definition numeric :: "cell \<Rightarrow> bool" where
  "numeric v = (case v of Num x \<Rightarrow> True | _ \<Rightarrow> False)"

text \<open>
  A library for the example tables, whose numeric columns hold no string that is a
  number and whose text is ASCII: no string parses, the date conversion keeps dates and
  makes everything else \<^verbatim>\<open>NaT\<close>, and \<^verbatim>\<open>title\<close> is the one of ASCII strings.
\<close>

definition plain_lib :: pandas where
  "plain_lib =
     \<lparr>py_float = (\<lambda>s. Bad), pd_to_numeric = (\<lambda>s. Bad),
      pd_to_datetime =
        (\<lambda>col. Some (\<lambda>k. case col ! k of Date y m d \<Rightarrow> Date y m d | _ \<Rightarrow> NaT)),
      py_title = ascii_title\<rparr>"

text \<open>A row with every field absent, and the ten columns of the students table.\<close>

definition empty_row :: student_row where
  "empty_row =
     \<lparr>student_code = None, first_name = None, last_name = None, email = None,
      date_of_birth = NA, gender = None, phone = None, department_code = None,
      graduation_year = NA, gpa = NA\<rparr>"

definition student_columns :: "string list" where
  "student_columns =
     [''student_code'', ''first_name'', ''last_name'', ''email'', ''date_of_birth'',
      ''gender'', ''phone'', ''department_code'', ''graduation_year'', ''gpa'']"

text \<open>\<^verbatim>\<open>get_validation_report()['total_errors']\<close>.\<close>

definition total_errors :: "transformer \<Rightarrow> nat" where
  "total_errors T = length (validation_errors T)"

text \<open>The transformer as a call of \<^verbatim>\<open>transform_students\<close> leaves it, raised or returned.\<close>

definition transformer_after ::
  "(exn \<times> transformer) + (dataframe \<times> transformer) \<Rightarrow> transformer" where
  "transformer_after res = (case res of Inl (e, T) \<Rightarrow> T | Inr (out, T) \<Rightarrow> T)"

section \<open>The rows that steps 7 and 8 are meant to keep\<close>

text \<open>
  Steps 7 and 8 in terms of the rows of the input table, to compare the code with.  The
  key of a row for the first deduplication is its email as step 1 normalises it, the
  key for the second its student code.  \<open>deduped\<close> removes every row whose email key an
  earlier row has and then, when the table has a student-code column, every remaining
  row whose student code an earlier remaining row has; \<open>kept\<close> removes from these the
  rows whose normalised email is not valid.
\<close>

definition email_key :: "int \<times> student_row \<Rightarrow> string option" where
  "email_key ir = normalize_email (email (snd ir))"

definition code_key :: "int \<times> student_row \<Rightarrow> string option" where
  "code_key ir = student_code (snd ir)"

definition email_deduped :: "dataframe \<Rightarrow> (int \<times> student_row) list" where
  "email_deduped df = drop_dups email_key [] (rows df)"

definition deduped :: "dataframe \<Rightarrow> (int \<times> student_row) list" where
  "deduped df =
     (if ''student_code'' \<in> set (columns df) then drop_dups code_key [] (email_deduped df)
      else email_deduped df)"

definition kept :: "dataframe \<Rightarrow> (int \<times> student_row) list" where
  "kept df = filter (\<lambda>ir. validate_email (email_key ir)) (deduped df)"

text \<open>
  How a row \<open>y\<close> of a table that the transformer makes goes back to the row \<open>x\<close> of the
  input: it has the label and the student code of \<open>x\<close>, the normalised email of \<open>x\<close>
  and, when the table has a GPA column, the GPA of \<open>x\<close> made numeric and clipped.
\<close>

definition cleaned_row ::
  "pandas \<Rightarrow> dataframe \<Rightarrow> int \<times> student_row \<Rightarrow> int \<times> student_row \<Rightarrow> bool" where
  "cleaned_row L df y x =
     (fst y = fst x \<and> email (snd y) = email_key x \<and> student_code (snd y) = code_key x
      \<and> (''gpa'' \<in> set (columns df) \<longrightarrow> gpa (snd y) = coerce_gpa L (gpa (snd x))))"

text \<open>The entry that \<^verbatim>\<open>deduplicate\<close> or step 8 logs for a number of removed rows.\<close>

definition dedup_log :: "nat \<Rightarrow> log_entry list" where
  "dedup_log n = (if n > 0 then [DedupRemoved n] else [])"

definition invalid_log :: "nat \<Rightarrow> log_entry list" where
  "invalid_log n = (if n > 0 then [InvalidRemoved n] else [])"

section \<open>Example tables\<close>

text \<open>Two rows with the same unparseable email.\<close>

definition bad_twice :: dataframe where
  "bad_twice =
     \<lparr>columns = student_columns,
      rows = [(0, empty_row\<lparr>email := Some ''bad''\<rparr>), (1, empty_row\<lparr>email := Some ''bad''\<rparr>)]\<rparr>"

text \<open>The rows of a table whose email fails validation after normalisation.\<close>

definition invalid_email_rows :: "dataframe \<Rightarrow> (int \<times> student_row) list" where
  "invalid_email_rows df =
     filter (\<lambda>ir. \<not> validate_email (normalize_email (email (snd ir)))) (rows df)"

text \<open>Four students with the GPA values 5.0, -1.0, 3.5 and a string that is no number.\<close>

definition gpa_table :: dataframe where
  "gpa_table =
     \<lparr>columns = student_columns,
      rows =
        [(0, empty_row\<lparr>student_code := Some ''S1'', email := Some ''a@x.com'',
                        gpa := Num (Fin 5)\<rparr>),
         (1, empty_row\<lparr>student_code := Some ''S2'', email := Some ''b@x.com'',
                        gpa := Num (Fin (- 1))\<rparr>),
         (2, empty_row\<lparr>student_code := Some ''S3'', email := Some ''c@x.com'',
                        gpa := Num (Fin 3.5)\<rparr>),
         (3, empty_row\<lparr>student_code := Some ''S4'', email := Some ''d@x.com'',
                        gpa := Str ''abc''\<rparr>)]\<rparr>"

text \<open>
  Five students: the second has the email of the first in capitals, the third an
  unparseable email, the fifth the student code of the first.
\<close>

definition mixed_table :: dataframe where
  "mixed_table =
     \<lparr>columns = student_columns,
      rows =
        [(0, empty_row\<lparr>student_code := Some ''S1'', email := Some ''a@x.com''\<rparr>),
         (1, empty_row\<lparr>student_code := Some ''S2'', email := Some ''A@X.COM ''\<rparr>),
         (2, empty_row\<lparr>student_code := Some ''S3'', email := Some ''bad''\<rparr>),
         (3, empty_row\<lparr>student_code := Some ''S4'', email := Some ''b@x.com''\<rparr>),
         (4, empty_row\<lparr>student_code := Some ''S1'', email := Some ''c@x.com''\<rparr>)]\<rparr>"

text \<open>
  Three students: the second shares the email of the first and has no student code, the
  third has no student code either.
\<close>

definition codes_table :: dataframe where
  "codes_table =
     \<lparr>columns = student_columns,
      rows =
        [(0, empty_row\<lparr>student_code := Some ''S1'', email := Some ''a@x.com''\<rparr>),
         (1, empty_row\<lparr>email := Some ''a@x.com''\<rparr>),
         (2, empty_row\<lparr>email := Some ''b@x.com''\<rparr>)]\<rparr>"

text \<open>
  Five students: the first has no email, the email of the second is blank and that of
  the fifth a no-break space; the third and the fourth have no student code.
\<close>

definition absent_keys_table :: dataframe where
  "absent_keys_table =
     \<lparr>columns = student_columns,
      rows =
        [(0, empty_row\<lparr>student_code := Some ''S0''\<rparr>),
         (1, empty_row\<lparr>student_code := Some ''S1'', email := Some ''  ''\<rparr>),
         (2, empty_row\<lparr>email := Some ''a@x.com''\<rparr>),
         (3, empty_row\<lparr>email := Some ''b@x.com''\<rparr>),
         (4, empty_row\<lparr>student_code := Some ''S2'', email := Some [CHR 0xA0]\<rparr>)]\<rparr>"

text \<open>The rows of a table in which a column is absent.\<close>

definition absent_rows :: "string \<Rightarrow> dataframe \<Rightarrow> (int \<times> student_row) list" where
  "absent_rows c df = filter (\<lambda>ir. row_get c (snd ir) = NA) (rows df)"

section \<open>The store\<close>

text \<open>
  A value stored in, or passed to, the database is a \<^typ>\<open>cell\<close>.  \<open>NA\<close>, Python's
  \<^verbatim>\<open>None\<close>, is SQL's \<^verbatim>\<open>NULL\<close>; the float NaN is a value of the database that is not
  \<^verbatim>\<open>NULL\<close>.  A timestamp column holds the default of the schema or a time.
\<close>

datatype stamp = SchemaDefault | Stamp nat

text \<open>
  The tables, with the columns that the statements of the load module name.
\<close>

record student =
  st_id :: int
  st_code :: cell
  st_first_name :: cell
  st_last_name :: cell
  st_email :: cell
  st_date_of_birth :: cell
  st_gender :: cell
  st_phone :: cell
  st_department_id :: "int option"
  st_graduation_year :: cell
  st_gpa :: cell
  st_status :: string
  st_updated_at :: stamp

record course =
  c_id :: int
  c_code :: cell
  c_name :: cell
  c_credits :: cell
  c_department_id :: int
  c_max_enrollment :: cell
  c_updated_at :: stamp

record db =
  departments :: "(string \<times> int) list"
  students :: "student list"
  courses :: "course list"

text \<open>
  The schema is not among the sources.  What it contributes is taken as a parameter:
  the message of the constraint that a student or course row violates when it is written
  into a state of the database, if any; and which values the driver can adapt (it
  raises before it sends a statement with a value that it cannot).
\<close>

record schema =
  student_check :: "db \<Rightarrow> student \<Rightarrow> string option"
  course_check :: "db \<Rightarrow> course \<Rightarrow> string option"
  adaptable :: "cell \<Rightarrow> bool"

text \<open>
  A connection with its open transaction: the committed state, the state the session
  sees, and whether the transaction is in the failed state.  In PostgreSQL a statement
  that fails leaves the transaction failed; until the transaction ends every statement
  raises, and \<^verbatim>\<open>commit\<close> on a failed transaction rolls it back.  The sequences that
  number the rows are not rolled back.  \<open>now\<close> is \<^verbatim>\<open>CURRENT_TIMESTAMP\<close>.
\<close>

record connection =
  durable :: db
  session :: db
  aborted :: bool
  student_seq :: int
  course_seq :: int
  now :: nat

definition commit :: "connection \<Rightarrow> connection" where
  "commit c = (if aborted c then c\<lparr>session := durable c, aborted := False\<rparr>
               else c\<lparr>durable := session c\<rparr>)"

definition rollback :: "connection \<Rightarrow> connection" where
  "rollback c = c\<lparr>session := durable c, aborted := False\<rparr>"

definition adapt_msg :: string where
  "adapt_msg = ''cannot adapt a value''"

definition failed_tx_msg :: string where
  "failed_tx_msg = ''current transaction is aborted''"

text \<open>
  What \<^verbatim>\<open>cursor.execute\<close> raises before the statement runs: the driver adapts the
  parameters first, then the server refuses a statement in a failed transaction.
\<close>

definition exec_guard :: "schema \<Rightarrow> connection \<Rightarrow> cell list \<Rightarrow> string option" where
  "exec_guard S c params =
     (if \<not> list_all (adaptable S) params then Some adapt_msg
      else if aborted c then Some failed_tx_msg
      else None)"

text \<open>SQL's \<open>=\<close> in a \<^verbatim>\<open>WHERE\<close> clause: a comparison with \<^verbatim>\<open>NULL\<close> selects nothing.\<close>

definition sql_eq :: "cell \<Rightarrow> cell \<Rightarrow> bool" where
  "sql_eq a b = (a \<noteq> NA \<and> b \<noteq> NA \<and> a = b)"

text \<open>\<^verbatim>\<open>COALESCE(p, column)\<close>.\<close>

definition coalesce :: "cell \<Rightarrow> cell \<Rightarrow> cell" where
  "coalesce p old = (if p \<noteq> NA then p else old)"

definition coalesce_id :: "int option \<Rightarrow> int option \<Rightarrow> int option" where
  "coalesce_id p old = (case p of Some i \<Rightarrow> Some i | None \<Rightarrow> old)"

section \<open>The loader\<close>

text \<open>
  \<^verbatim>\<open>row.to_dict()\<close>: the dictionary of a row has the columns of its table as keys;
  \<^verbatim>\<open>d.get(k)\<close> gives \<^verbatim>\<open>None\<close> for a key that is missing.
\<close>

type_synonym pydict = "string \<rightharpoonup> cell"

definition to_dict :: "string list \<Rightarrow> student_row \<Rightarrow> pydict" where
  "to_dict cols r = (\<lambda>c. if c \<in> set cols then Some (row_get c r) else None)"

definition dget :: "pydict \<Rightarrow> string \<Rightarrow> cell" where
  "dget d k = (case d k of None \<Rightarrow> NA | Some v \<Rightarrow> v)"

text \<open>
  \<^verbatim>\<open>get_department_id\<close>: no statement is run for a code of which \<^verbatim>\<open>pd.isna\<close> holds; the
  result is the id of the first department with the code, \<open>Inl\<close> the message of an
  exception.
\<close>

definition department_lookup :: "db \<Rightarrow> cell \<Rightarrow> int option" where
  "department_lookup d code_v =
     (case code_v of Str s \<Rightarrow> map_of (departments d) s | _ \<Rightarrow> None)"

definition get_department_id :: "schema \<Rightarrow> connection \<Rightarrow> cell \<Rightarrow> string + int option" where
  "get_department_id S c department_code_v =
     (if isna department_code_v then Inr None
      else case exec_guard S c [department_code_v] of
             Some m \<Rightarrow> Inl m
           | None \<Rightarrow> Inr (department_lookup (session c) department_code_v))"

text \<open>
  The \<^verbatim>\<open>SELECT\<close> of \<^verbatim>\<open>upsert_student\<close>, with \<^verbatim>\<open>fetchone\<close>: the first student whose
  email or student code equals the parameter.
\<close>

definition find_student :: "db \<Rightarrow> cell \<Rightarrow> cell \<Rightarrow> student option" where
  "find_student d email_v code_v =
     find (\<lambda>s. sql_eq (st_email s) email_v \<or> sql_eq (st_code s) code_v) (students d)"

text \<open>The \<^verbatim>\<open>SET\<close> clause of the \<^verbatim>\<open>UPDATE\<close>, on the row it is applied to.\<close>

definition update_set :: "pydict \<Rightarrow> int option \<Rightarrow> nat \<Rightarrow> student \<Rightarrow> student" where
  "update_set d department_id t s =
     s\<lparr>st_first_name := coalesce (dget d ''first_name'') (st_first_name s),
       st_last_name := coalesce (dget d ''last_name'') (st_last_name s),
       st_date_of_birth := coalesce (dget d ''date_of_birth'') (st_date_of_birth s),
       st_gender := coalesce (dget d ''gender'') (st_gender s),
       st_phone := coalesce (dget d ''phone'') (st_phone s),
       st_department_id := coalesce_id department_id (st_department_id s),
       st_graduation_year := coalesce (dget d ''graduation_year'') (st_graduation_year s),
       st_gpa := coalesce (dget d ''gpa'') (st_gpa s),
       st_updated_at := Stamp t\<rparr>"

text \<open>The row of the \<^verbatim>\<open>INSERT\<close>; the columns it does not name get their defaults.\<close>

definition insert_row :: "pydict \<Rightarrow> int option \<Rightarrow> int \<Rightarrow> student" where
  "insert_row d department_id new_id =
     \<lparr>st_id = new_id,
      st_code = dget d ''student_code'',
      st_first_name = dget d ''first_name'',
      st_last_name = dget d ''last_name'',
      st_email = dget d ''email'',
      st_date_of_birth = dget d ''date_of_birth'',
      st_gender = dget d ''gender'',
      st_phone = dget d ''phone'',
      st_department_id = department_id,
      st_graduation_year = dget d ''graduation_year'',
      st_gpa = dget d ''gpa'',
      st_status = ''Active'',
      st_updated_at = SchemaDefault\<rparr>"

definition update_params :: "pydict \<Rightarrow> cell list" where
  "update_params d =
     [dget d ''first_name'', dget d ''last_name'', dget d ''date_of_birth'', dget d ''gender'',
      dget d ''phone'', dget d ''graduation_year'', dget d ''gpa'']"

definition insert_params :: "pydict \<Rightarrow> cell list" where
  "insert_params d =
     [dget d ''student_code'', dget d ''first_name'', dget d ''last_name'', dget d ''email'',
      dget d ''date_of_birth'', dget d ''gender'', dget d ''phone'', dget d ''graduation_year'',
      dget d ''gpa'']"

text \<open>
  \<^verbatim>\<open>upsert_student\<close>: the tuple it returns and the connection it leaves.  Every
  exception of its body is caught and returned as \<open>(False, None, message)\<close>.
\<close>

type_synonym upsert_result = "bool \<times> int option \<times> string"

definition upsert_student ::
  "schema \<Rightarrow> connection \<Rightarrow> pydict \<Rightarrow> upsert_result \<times> connection" where
  "upsert_student S c d =
     (case get_department_id S c (dget d ''department_code'') of
        Inl m \<Rightarrow> ((False, None, m), c)
      | Inr department_id \<Rightarrow>
         (case exec_guard S c [dget d ''email'', dget d ''student_code''] of
            Some m \<Rightarrow> ((False, None, m), c)
          | None \<Rightarrow>
             (case find_student (session c) (dget d ''email'') (dget d ''student_code'') of
                Some existing \<Rightarrow>
                  (case exec_guard S c (update_params d) of
                     Some m \<Rightarrow> ((False, None, m), c)
                   | None \<Rightarrow>
                      (let new = update_set d department_id (now c) existing
                       in case student_check S (session c) new of
                            Some m \<Rightarrow> ((False, None, m), c\<lparr>aborted := True\<rparr>)
                          | None \<Rightarrow>
                              ((True, Some (st_id existing), ''updated''),
                               c\<lparr>session := (session c)\<lparr>students :=
                                    map (\<lambda>s. if st_id s = st_id existing
                                              then update_set d department_id (now c) s else s)
                                      (students (session c))\<rparr>\<rparr>)))
              | None \<Rightarrow>
                  (case exec_guard S c (insert_params d) of
                     Some m \<Rightarrow> ((False, None, m), c)
                   | None \<Rightarrow>
                      (let new = insert_row d department_id (student_seq c);
                           c1 = c\<lparr>student_seq := student_seq c + 1\<rparr>
                       in case student_check S (session c) new of
                            Some m \<Rightarrow> ((False, None, m), c1\<lparr>aborted := True\<rparr>)
                          | None \<Rightarrow>
                              ((True, Some (st_id new), ''inserted''),
                               c1\<lparr>session := (session c)\<lparr>students :=
                                     students (session c) @ [new]\<rparr>\<rparr>))))))"

text \<open>
  \<^verbatim>\<open>upsert_course\<close>.  \<^verbatim>\<open>data[k]\<close> raises \<^verbatim>\<open>KeyError\<close> for a missing key, whose text is
  the key in quotes; \<^verbatim>\<open>data.get("max_enrollment", 30)\<close> has a default.  On a conflict
  of the course code the statement overwrites name, credits and capacity with the
  proposed values and sets the update time; the department is not in its \<^verbatim>\<open>SET\<close>.
\<close>

definition key_error_msg :: "string \<Rightarrow> string" where
  "key_error_msg k = CHR 0x27 # k @ [CHR 0x27]"

definition conflict_set :: "cell \<Rightarrow> cell \<Rightarrow> cell \<Rightarrow> nat \<Rightarrow> course \<Rightarrow> course" where
  "conflict_set name_v credits_v max_v t x =
     x\<lparr>c_name := name_v, c_credits := credits_v, c_max_enrollment := max_v,
       c_updated_at := Stamp t\<rparr>"

definition upsert_course ::
  "schema \<Rightarrow> connection \<Rightarrow> pydict \<Rightarrow> (bool \<times> string) \<times> connection" where
  "upsert_course S c d =
     (case d ''department_code'' of
        None \<Rightarrow> ((False, key_error_msg ''department_code''), c)
      | Some dc \<Rightarrow>
     (case exec_guard S c [dc] of
        Some m \<Rightarrow> ((False, m), c)
      | None \<Rightarrow>
     (case department_lookup (session c) dc of
        None \<Rightarrow> ((False, ''Department not found''), c)
      | Some dept \<Rightarrow>
     (case d ''course_code'' of
        None \<Rightarrow> ((False, key_error_msg ''course_code''), c)
      | Some cc \<Rightarrow>
     (case d ''course_name'' of
        None \<Rightarrow> ((False, key_error_msg ''course_name''), c)
      | Some cn \<Rightarrow>
     (case d ''credits'' of
        None \<Rightarrow> ((False, key_error_msg ''credits''), c)
      | Some cr \<Rightarrow>
     (let me = (case d ''max_enrollment'' of None \<Rightarrow> Num (Fin 30) | Some v \<Rightarrow> v)
      in case exec_guard S c [cc, cn, cr, me] of
           Some m \<Rightarrow> ((False, m), c)
         | None \<Rightarrow>
            (let c1 = c\<lparr>course_seq := course_seq c + 1\<rparr>
             in case find (\<lambda>x. sql_eq (c_code x) cc) (courses (session c)) of
                  Some old \<Rightarrow>
                    (case course_check S (session c) (conflict_set cn cr me (now c) old) of
                       Some m \<Rightarrow> ((False, m), c1\<lparr>aborted := True\<rparr>)
                     | None \<Rightarrow>
                        ((True, ''upserted''),
                         c1\<lparr>session := (session c)\<lparr>courses :=
                               map (\<lambda>x. if c_id x = c_id old
                                         then conflict_set cn cr me (now c) x else x)
                                 (courses (session c))\<rparr>\<rparr>))
                | None \<Rightarrow>
                    (let new = \<lparr>c_id = course_seq c, c_code = cc, c_name = cn,
                                c_credits = cr, c_department_id = dept,
                                c_max_enrollment = me, c_updated_at = SchemaDefault\<rparr>
                     in case course_check S (session c) new of
                          Some m \<Rightarrow> ((False, m), c1\<lparr>aborted := True\<rparr>)
                        | None \<Rightarrow>
                           ((True, ''upserted''),
                            c1\<lparr>session := (session c)\<lparr>courses :=
                                  courses (session c) @ [new]\<rparr>\<rparr>))))))))))"

text \<open>The statistics that \<^verbatim>\<open>load_students_batch\<close> returns.\<close>

record load_error =
  le_row :: int
  le_email :: cell
  le_error :: string

record load_stats =
  total :: nat
  inserted :: nat
  updated :: nat
  failed :: nat
  errors :: "load_error list"

text \<open>
  What the loop does is recorded, beside the variables of the source, as a trace: each
  call of \<^verbatim>\<open>upsert_student\<close> with the label of its row, the email of its dictionary
  and the tuple it returned, and each \<^verbatim>\<open>conn.commit()\<close>.
\<close>

datatype event = Upserted int cell upsert_result | Committed

text \<open>
  The body of the \<^verbatim>\<open>for\<close> loop over \<^verbatim>\<open>df.iterrows()\<close>.  The test for the commit is
  \<^verbatim>\<open>(idx + 1) % batch_size == 0\<close> on the index label of the row; with a batch size of
  zero it raises, and the connection it leaves is returned with the exception.
\<close>

fun load_loop ::
  "schema \<Rightarrow> string list \<Rightarrow> int \<Rightarrow> load_stats \<times> connection \<times> event list \<Rightarrow>
   (int \<times> student_row) list \<Rightarrow> (exn \<times> connection) + (load_stats \<times> connection \<times> event list)" where
  "load_loop S cols batch_size st [] = Inr st"
| "load_loop S cols batch_size (stats, c, tr) ((idx, row) # rest) =
     (let student_data = to_dict cols row;
          ((success, student_id, message), c1) = upsert_student S c student_data;
          stats1 =
            (if success then
               (if message = ''inserted'' then stats\<lparr>inserted := inserted stats + 1\<rparr>
                else stats\<lparr>updated := updated stats + 1\<rparr>)
             else stats\<lparr>failed := failed stats + 1,
                        errors := errors stats @
                          [\<lparr>le_row = idx, le_email = dget student_data ''email'',
                            le_error = message\<rparr>]\<rparr>);
          tr1 = tr @ [Upserted idx (dget student_data ''email'') (success, student_id, message)]
      in if batch_size = 0 then Inl (ZeroDivisionError, c1)
         else if (idx + 1) mod batch_size = 0
         then load_loop S cols batch_size (stats1, commit c1, tr1 @ [Committed]) rest
         else load_loop S cols batch_size (stats1, c1, tr1) rest)"

text \<open>
  \<^verbatim>\<open>load_students_batch\<close> inside \<^verbatim>\<open>get_connection\<close>, from the connection that
  \<^verbatim>\<open>psycopg2.connect\<close> gave: the context manager commits when the block ends and rolls
  back when it raises.
\<close>

definition load_students_batch ::
  "schema \<Rightarrow> connection \<Rightarrow> dataframe \<Rightarrow> int \<Rightarrow>
   (exn \<times> connection) + (load_stats \<times> connection \<times> event list)" where
  "load_students_batch S c df batch_size =
     (let stats = \<lparr>total = length (rows df), inserted = 0, updated = 0, failed = 0,
                   errors = []\<rparr>
      in case load_loop S (columns df) batch_size (stats, c, []) (rows df) of
           Inl (e, c') \<Rightarrow> Inl (e, rollback c')
         | Inr (stats', c', tr) \<Rightarrow> Inr (stats', commit c', tr @ [Committed]))"

text \<open>
  Read off a trace: the calls of \<^verbatim>\<open>upsert_student\<close> in order, and the number of
  calls since the last commit.
\<close>

fun results :: "event list \<Rightarrow> (int \<times> cell \<times> upsert_result) list" where
  "results [] = []"
| "results (Upserted idx e r # tr) = (idx, e, r) # results tr"
| "results (Committed # tr) = results tr"

fun is_upsert :: "event \<Rightarrow> bool" where
  "is_upsert (Upserted idx e r) = True"
| "is_upsert Committed = False"

definition uncommitted :: "event list \<Rightarrow> nat" where
  "uncommitted tr = length (takeWhile is_upsert (rev tr))"

definition succeeded :: "int \<times> cell \<times> upsert_result \<Rightarrow> bool" where
  "succeeded x = fst (snd (snd x))"

definition returned_id :: "int \<times> cell \<times> upsert_result \<Rightarrow> int option" where
  "returned_id x = fst (snd (snd (snd x)))"

definition returned_message :: "int \<times> cell \<times> upsert_result \<Rightarrow> string" where
  "returned_message x = snd (snd (snd (snd x)))"

section \<open>Example stores\<close>

text \<open>A schema without constraints, under a driver that adapts every value.\<close>

definition lenient :: schema where
  "lenient = \<lparr>student_check = (\<lambda>d s. None), course_check = (\<lambda>d x. None),
              adaptable = (\<lambda>v. True)\<rparr>"

text \<open>
  The driver without adapters of the user's own: it has none for \<^verbatim>\<open>pd.NA\<close>.  The example
  loads pass it no \<^verbatim>\<open>NaT\<close>.
\<close>

definition plain_driver :: "cell \<Rightarrow> bool" where
  "plain_driver v = (v \<noteq> PdNA)"

text \<open>A schema without constraints, under the plain driver.\<close>

definition unconstrained :: schema where
  "unconstrained = \<lparr>student_check = (\<lambda>d s. None), course_check = (\<lambda>d x. None),
                    adaptable = plain_driver\<rparr>"

text \<open>A schema whose students must have a first name, under the plain driver.\<close>

definition not_null_msg :: string where
  "not_null_msg = ''null value in column first_name violates not-null constraint''"

definition named :: schema where
  "named = \<lparr>student_check = (\<lambda>d s. if st_first_name s = NA then Some not_null_msg else None),
            course_check = (\<lambda>d x. None), adaptable = plain_driver\<rparr>"

text \<open>One department, one student, one course.\<close>

definition ann :: student where
  "ann = \<lparr>st_id = 1, st_code = Str ''S1'', st_first_name = Str ''Ann'',
          st_last_name = Str ''Lee'', st_email = Str ''ann@x.com'', st_date_of_birth = NA,
          st_gender = NA, st_phone = Str ''5551234567'', st_department_id = Some 10,
          st_graduation_year = Num (Fin 2027), st_gpa = Num (Fin 3.5),
          st_status = ''Active'', st_updated_at = SchemaDefault\<rparr>"

definition algebra :: course where
  "algebra = \<lparr>c_id = 1, c_code = Str ''MATH101'', c_name = Str ''Algebra'',
              c_credits = Num (Fin 3), c_department_id = 10, c_max_enrollment = Num (Fin 30),
              c_updated_at = SchemaDefault\<rparr>"

definition campus :: db where
  "campus = \<lparr>departments = [(''CS'', 10), (''MATH'', 11)], students = [ann],
             courses = [algebra]\<rparr>"

definition empty_db :: db where
  "empty_db = \<lparr>departments = [(''CS'', 10), (''MATH'', 11)], students = [], courses = []\<rparr>"

text \<open>A connection as \<^verbatim>\<open>psycopg2.connect\<close> gives it, at time 7.\<close>

definition connect :: "db \<Rightarrow> connection" where
  "connect d = \<lparr>durable = d, session = d, aborted = False, student_seq = 100,
                course_seq = 100, now = 7\<rparr>"

text \<open>
  A record for Ann that matches on the student code, brings another email and a new
  phone, and leaves the last name absent.
\<close>

definition ann_again :: pydict where
  "ann_again = [''student_code'' \<mapsto> Str ''S1'', ''email'' \<mapsto> Str ''new@x.com'',
                ''first_name'' \<mapsto> Str ''Anna'', ''last_name'' \<mapsto> NA,
                ''phone'' \<mapsto> Str ''5550000000'']"

text \<open>
  A raw table with one row for Ann, whose GPA is missing, and the dictionary of the row
  that the transformer makes of it.
\<close>

definition ann_raw :: dataframe where
  "ann_raw =
     \<lparr>columns = student_columns,
      rows = [(0, \<lparr>student_code = Some ''S1'', first_name = Some ''ann'',
                   last_name = Some ''lee'', email = Some ''Ann@x.com'',
                   date_of_birth = Date 2004 5 17, gender = None, phone = None,
                   department_code = None, graduation_year = Num (Fin 2027), gpa = NA\<rparr>)]\<rparr>"

definition ann_cleaned :: dataframe where
  "ann_cleaned = fst (projr (transform_students plain_lib ann_raw))"

definition ann_no_gpa :: pydict where
  "ann_no_gpa = to_dict (columns ann_cleaned) (snd (hd (rows ann_cleaned)))"

text \<open>A record for the course that is stored, with an absent capacity.\<close>

definition algebra_again :: pydict where
  "algebra_again = [''course_code'' \<mapsto> Str ''MATH101'', ''course_name'' \<mapsto> Str ''Linear Algebra'',
                    ''credits'' \<mapsto> Num (Fin 4), ''department_code'' \<mapsto> Str ''CS'',
                    ''max_enrollment'' \<mapsto> NA]"

section \<open>The loop of the loader, one pass at a time\<close>

text \<open>The update of the statistics in the body of the loop.\<close>

definition count_result :: "load_stats \<Rightarrow> int \<Rightarrow> cell \<Rightarrow> upsert_result \<Rightarrow> load_stats" where
  "count_result stats idx e r =
     (case r of (success, student_id, message) \<Rightarrow>
        if success then
          (if message = ''inserted'' then stats\<lparr>inserted := inserted stats + 1\<rparr>
           else stats\<lparr>updated := updated stats + 1\<rparr>)
        else stats\<lparr>failed := failed stats + 1,
                   errors := errors stats @ [\<lparr>le_row = idx, le_email = e, le_error = message\<rparr>]\<rparr>)"

text \<open>One pass through the body of the loop, for a batch size that is not zero.\<close>

definition loop_body ::
  "schema \<Rightarrow> string list \<Rightarrow> int \<Rightarrow> load_stats \<times> connection \<times> event list \<Rightarrow>
   int \<times> student_row \<Rightarrow> load_stats \<times> connection \<times> event list" where
  "loop_body S cols batch_size st ir =
     (case st of (stats, c, tr) \<Rightarrow>
        (let d = to_dict cols (snd ir);
             r = fst (upsert_student S c d);
             c1 = snd (upsert_student S c d);
             stats1 = count_result stats (fst ir) (dget d ''email'') r;
             tr1 = tr @ [Upserted (fst ir) (dget d ''email'') r]
         in if (fst ir + 1) mod batch_size = 0 then (stats1, commit c1, tr1 @ [Committed])
            else (stats1, c1, tr1)))"

definition load_error_of :: "int \<times> cell \<times> upsert_result \<Rightarrow> load_error" where
  "load_error_of x = \<lparr>le_row = fst x, le_email = fst (snd x), le_error = returned_message x\<rparr>"

section \<open>Example loads\<close>

text \<open>
  Student number \<open>i\<close>, with code \<^verbatim>\<open>Si\<close> and email \<^verbatim>\<open>si@x.com\<close>, for \<open>i\<close> below ten; every
  column that the transformer casts has a value.
\<close>

definition numbered :: "nat \<Rightarrow> student_row" where
  "numbered i =
     \<lparr>student_code = Some (''S'' @ [char_of (48 + i)]), first_name = Some ''Sam'',
      last_name = Some ''Doe'', email = Some (''s'' @ [char_of (48 + i)] @ ''@x.com''),
      date_of_birth = Date 2004 1 1, gender = None, phone = None, department_code = None,
      graduation_year = Num (Fin 2027), gpa = Num (Fin 3)\<rparr>"

text \<open>
  Ten students with the labels 0 to 9.  In the first table the one with label 5 has no
  first name, which the schema \<open>named\<close> refuses; in the second its graduation year is
  \<^verbatim>\<open>pd.NA\<close>, as the transformer leaves a year that is missing, which the driver cannot
  adapt.
\<close>

definition ten_students :: dataframe where
  "ten_students =
     \<lparr>columns = student_columns,
      rows = map (\<lambda>i. (int i, if i = 5 then (numbered i)\<lparr>first_name := None\<rparr> else numbered i))
               [0..<10]\<rparr>"

definition ten_students_na :: dataframe where
  "ten_students_na =
     \<lparr>columns = student_columns,
      rows = map (\<lambda>i. (int i, if i = 5 then (numbered i)\<lparr>graduation_year := PdNA\<rparr>
                              else numbered i))
               [0..<10]\<rparr>"

text \<open>What a load that returns leaves: its statistics and its connection.\<close>

definition stats_of ::
  "(exn \<times> connection) + (load_stats \<times> connection \<times> event list) \<Rightarrow> load_stats" where
  "stats_of res = fst (projr res)"

definition connection_of ::
  "(exn \<times> connection) + (load_stats \<times> connection \<times> event list) \<Rightarrow> connection" where
  "connection_of res = fst (snd (projr res))"

text \<open>Five raw students with the labels 0 to 4; the emails of 1 and 3 are unparseable.\<close>

definition five_students :: dataframe where
  "five_students =
     \<lparr>columns = student_columns,
      rows = map (\<lambda>i. (int i, if odd i then (numbered i)\<lparr>email := Some (''bad'' @ [char_of (48 + i)])\<rparr>
                              else numbered i))
               [0..<5]\<rparr>"

definition cleaned_five :: dataframe where
  "cleaned_five = fst (projr (transform_students plain_lib five_students))"

text \<open>The trace of a load that returns.\<close>

definition trace_of ::
  "(exn \<times> connection) + (load_stats \<times> connection \<times> event list) \<Rightarrow> event list" where
  "trace_of res = (case res of Inl x \<Rightarrow> [] | Inr (stats, c, tr) \<Rightarrow> tr)"

section \<open>The pipeline\<close>

text \<open>
  What lies outside the pipeline and decides a run: the source type it was made with;
  what each method of the extractor does on the data source, the exception it raises or
  the table it returns; the library under the transformer; the exception that the
  constructor of the loader raises, if any; the result of its connection test; what
  \<^verbatim>\<open>psycopg2.connect\<close> gives inside \<^verbatim>\<open>load_students_batch\<close>, and the schema of the
  database; and the readings of the clock at the start and at the end, in seconds.
\<close>

record world =
  source_type :: string
  extract_csv :: "exn + dataframe"
  extract_json :: "exn + dataframe"
  extract_from_url :: "exn + dataframe"
  extract_google_sheet :: "exn + dataframe"
  library :: pandas
  loader_init :: "exn option"
  test_connection :: bool
  psycopg2_connect :: "exn + connection"
  db_schema :: schema
  now_at_start :: real
  now_at_end :: real

datatype phase = Extract | Transform | Load

text \<open>
  An entry of the list under \<^verbatim>\<open>'errors'\<close> holds the phase and \<^verbatim>\<open>str(e)\<close>; the model keeps
  the exception.  In \<^verbatim>\<open>pipeline_stats\<close> the keys \<^verbatim>\<open>'duration'\<close> and
  \<^verbatim>\<open>'validation_errors'\<close> are missing until they are assigned.
\<close>

record phase_error =
  pe_phase :: phase
  pe_error :: exn

record pipeline_stats =
  start_time :: "real option"
  end_time :: "real option"
  duration :: "real option"
  extract_count :: nat
  transform_count :: nat
  validation_error_count :: "nat option"
  ps_load_stats :: "load_stats option"
  ps_errors :: "phase_error list"

text \<open>
  Of the lines that the pipeline logs, the model keeps those that tell which phase ran and
  how it ended, and the warnings for the entries of the validation report.
\<close>

datatype log_line =
  PipelineStarted | PhaseStarted phase | PhaseComplete phase | PhaseFailed phase exn
  | NoRawData | NoTransformedData | ValidationWarning int err_kind | PipelineComplete

record pipeline =
  raw_data :: "dataframe option"
  transformed_data :: "dataframe option"
  p_load_stats :: "load_stats option"
  pipeline_stats :: pipeline_stats
  logged :: "log_line list"

text \<open>The pipeline as \<^verbatim>\<open>__init__\<close> leaves it.\<close>

definition new_pipeline :: pipeline where
  "new_pipeline =
     \<lparr>raw_data = None, transformed_data = None, p_load_stats = None,
      pipeline_stats =
        \<lparr>start_time = None, end_time = None, duration = None, extract_count = 0,
         transform_count = 0, validation_error_count = None, ps_load_stats = None,
         ps_errors = []\<rparr>,
      logged = []\<rparr>"

definition log_line :: "log_line \<Rightarrow> pipeline \<Rightarrow> pipeline" where
  "log_line l p = p\<lparr>logged := logged p @ [l]\<rparr>"

text \<open>The \<^verbatim>\<open>except Exception as e\<close> clause of a phase.\<close>

definition phase_failed :: "phase \<Rightarrow> exn \<Rightarrow> pipeline \<Rightarrow> pipeline" where
  "phase_failed ph e p =
     (log_line (PhaseFailed ph e) p)
       \<lparr>pipeline_stats := (pipeline_stats p)
          \<lparr>ps_errors := ps_errors (pipeline_stats p) @ [\<lparr>pe_phase = ph, pe_error = e\<rparr>]\<rparr>\<rparr>"

text \<open>The call of the extractor that the source type selects.\<close>

definition extracted :: "world \<Rightarrow> exn + dataframe" where
  "extracted W =
     (if source_type W = ''csv'' then extract_csv W
      else if source_type W = ''json'' then extract_json W
      else if source_type W = ''url'' then extract_from_url W
      else if source_type W = ''google_sheet'' then extract_google_sheet W
      else Inl (ValueError (''Unknown source type: '' @ source_type W)))"

definition extract_phase :: "world \<Rightarrow> pipeline \<Rightarrow> bool \<times> pipeline" where
  "extract_phase W p =
     (let p1 = log_line (PhaseStarted Extract) p
      in case extracted W of
           Inr df \<Rightarrow>
             (True, (log_line (PhaseComplete Extract) p1)
                      \<lparr>raw_data := Some df,
                       pipeline_stats := (pipeline_stats p1)\<lparr>extract_count := length (rows df)\<rparr>\<rparr>)
         | Inl e \<Rightarrow> (False, phase_failed Extract e p1))"

text \<open>
  The loop over the first ten entries of the validation report logs
  \<^verbatim>\<open>error['row']\<close> and \<^verbatim>\<open>error['error']\<close>.  The entry of a failed cast has no key
  \<^verbatim>\<open>'row'\<close>, so the loop raises \<^verbatim>\<open>KeyError\<close> there: the result is the lines logged and
  whether it raised.
\<close>

fun warn_errors :: "validation_error list \<Rightarrow> log_line list \<times> bool" where
  "warn_errors [] = ([], False)"
| "warn_errors (e # es) =
     (case err_row e of
        None \<Rightarrow> ([], True)
      | Some i \<Rightarrow> (ValidationWarning i (err_error e) # fst (warn_errors es),
                   snd (warn_errors es)))"

definition transform_phase :: "world \<Rightarrow> pipeline \<Rightarrow> bool \<times> pipeline" where
  "transform_phase W p =
     (let p1 = log_line (PhaseStarted Transform) p
      in case raw_data p1 of
           None \<Rightarrow> (False, log_line NoRawData p1)
         | Some raw \<Rightarrow>
            (case transform_students (library W) raw of
               Inl (e, T) \<Rightarrow> (False, phase_failed Transform e p1)
             | Inr (out, T) \<Rightarrow>
                (let p2 = (log_line (PhaseComplete Transform) p1)
                            \<lparr>transformed_data := Some out,
                             pipeline_stats := (pipeline_stats p1)
                               \<lparr>transform_count := length (rows out),
                                validation_error_count := Some (total_errors T)\<rparr>\<rparr>;
                     w = warn_errors (take 10 (validation_errors T));
                     p3 = p2\<lparr>logged := logged p2 @ fst w\<rparr>
                 in if snd w then (False, phase_failed Transform (KeyError ''row'') p3)
                    else (True, p3))))"

text \<open>
  The load phase, with the batch size that \<^verbatim>\<open>load_students_batch\<close> has by default.  The
  state in which the load leaves the database is not followed here.
\<close>

definition load_phase :: "world \<Rightarrow> pipeline \<Rightarrow> bool \<times> pipeline" where
  "load_phase W p =
     (let p1 = log_line (PhaseStarted Load) p
      in case transformed_data p1 of
           None \<Rightarrow> (False, log_line NoTransformedData p1)
         | Some df \<Rightarrow>
            if length (rows df) = 0 then (False, log_line NoTransformedData p1)
            else case loader_init W of
                   Some e \<Rightarrow> (False, phase_failed Load e p1)
                 | None \<Rightarrow>
                    if \<not> test_connection W then (False, phase_failed Load ConnectionError p1)
                    else case psycopg2_connect W of
                           Inl e \<Rightarrow> (False, phase_failed Load e p1)
                         | Inr c \<Rightarrow>
                            (case load_students_batch (db_schema W) c df 100 of
                               Inl (e, c') \<Rightarrow> (False, phase_failed Load e p1)
                             | Inr (stats, c', tr) \<Rightarrow>
                                 (failed stats = 0,
                                  (log_line (PhaseComplete Load) p1)
                                    \<lparr>p_load_stats := Some stats,
                                     pipeline_stats := (pipeline_stats p1)
                                       \<lparr>ps_load_stats := Some stats\<rparr>\<rparr>)))"

text \<open>\<^verbatim>\<open>run\<close>: the dictionary it returns and the pipeline it leaves.\<close>

definition run :: "world \<Rightarrow> pipeline \<Rightarrow> pipeline_stats \<times> pipeline" where
  "run W p0 =
     (let p1 = (log_line PipelineStarted p0)
                 \<lparr>pipeline_stats := (pipeline_stats p0)\<lparr>start_time := Some (now_at_start W)\<rparr>\<rparr>;
          (extract_success, p2) = extract_phase W p1;
          (transform_success, p3) =
             (if extract_success then transform_phase W p2 else (False, p2));
          (load_success, p4) =
             (if transform_success then load_phase W p3 else (False, p3));
          p5 = p4\<lparr>pipeline_stats := (pipeline_stats p4)
                    \<lparr>end_time := Some (now_at_end W),
                     duration := Some (now_at_end W - now_at_start W)\<rparr>\<rparr>;
          p6 = log_line PipelineComplete p5
      in (pipeline_stats p6, p6))"

text \<open>The phases that a log shows as started, and the exception of the transform phase.\<close>

fun phases_started :: "log_line list \<Rightarrow> phase list" where
  "phases_started [] = []"
| "phases_started (PhaseStarted ph # ls) = ph # phases_started ls"
| "phases_started (l # ls) = phases_started ls"

definition transform_raises :: "pandas \<Rightarrow> dataframe \<Rightarrow> exn option" where
  "transform_raises L raw =
     (case transform_students L raw of
        Inl (e, T) \<Rightarrow> Some e
      | Inr (out, T) \<Rightarrow>
          if snd (warn_errors (take 10 (validation_errors T))) then Some (KeyError ''row'')
          else None)"

section \<open>Example runs\<close>

text \<open>
  A world in which every extraction gives a table, the database is reachable and has no
  constraints, and the run takes two seconds; a source type that the pipeline does not
  know; and a table without an email column.
\<close>

definition quiet_world :: "dataframe \<Rightarrow> world" where
  "quiet_world df =
     \<lparr>source_type = ''csv'', extract_csv = Inr df, extract_json = Inr df,
      extract_from_url = Inr df, extract_google_sheet = Inr df, library = plain_lib,
      loader_init = None, test_connection = True, psycopg2_connect = Inr (connect empty_db),
      db_schema = unconstrained, now_at_start = 10, now_at_end = 12\<rparr>"

definition no_email_table :: dataframe where
  "no_email_table =
     \<lparr>columns = [''student_code'', ''gpa''],
      rows = [(0, empty_row\<lparr>student_code := Some ''S1'', gpa := Num (Fin 5)\<rparr>)]\<rparr>"

definition ten_numbered :: dataframe where
  "ten_numbered = \<lparr>columns = student_columns, rows = map (\<lambda>i. (int i, numbered i)) [0..<10]\<rparr>"

section \<open>Shared enumerations\<close>

text \<open>
  C8.  The department codes and the gender values accepted by the validators of the
  transform pipeline are the same sets as the ones inside the field validators of the
  request-serving layer's \<^verbatim>\<open>StudentCreate\<close>.
\<close>

theorem C8_shared_enumerations:
  "VALID_DEPARTMENTS = valid_depts \<and> VALID_GENDERS = valid_genders"
  by (simp add: VALID_DEPARTMENTS_def valid_depts_def VALID_GENDERS_def valid_genders_def)

section \<open>Properties of the transformer\<close>

lemma drop_dups_subseq: "subseq (drop_dups key seen xs) xs"
  by (induction xs arbitrary: seen) auto

lemma drop_dups_filter_key:
  "filter (\<lambda>x. key x = k) (drop_dups key seen xs) =
     (if k \<in> set seen then [] else take 1 (filter (\<lambda>x. key x = k) xs))"
proof (induction xs arbitrary: seen)
  case Nil
  then show ?case by simp
next
  case (Cons x xs)
  show ?case
  proof (cases "key x \<in> set seen")
    case True
    then show ?thesis using Cons.IH [of seen] by auto
  next
    case False
    then show ?thesis using Cons.IH [of "key x # seen"] by auto
  qed
qed

lemma drop_dups_length: "length (drop_dups key seen xs) \<le> length xs"
  by (induction xs arbitrary: seen) (auto simp: le_SucI)

lemmas rows_simps = map_rows_def case_prod_unfold comp_def Let_def

lemma step1_columns: "columns (step1_clean L df) = columns df"
  by (simp add: step1_clean_def rows_simps)

lemma step1_fst: "map fst (rows (step1_clean L df)) = map fst (rows df)"
  by (simp add: step1_clean_def rows_simps)

lemma step1_email:
  "''email'' \<in> set (columns df) \<Longrightarrow>
   map (\<lambda>ir. email (snd ir)) (rows (step1_clean L df)) = map (\<lambda>ir. normalize_email (email (snd ir))) (rows df)"
  by (simp add: step1_clean_def rows_simps)

lemma step1_gpa: "map (\<lambda>ir. gpa (snd ir)) (rows (step1_clean L df)) = map (\<lambda>ir. gpa (snd ir)) (rows df)"
  by (simp add: step1_clean_def rows_simps)

lemma step1_code: "map (\<lambda>ir. student_code (snd ir)) (rows (step1_clean L df)) = map (\<lambda>ir. student_code (snd ir)) (rows df)"
  by (simp add: step1_clean_def rows_simps)

lemma map_enumerate_snd: "map (\<lambda>p. g (snd p)) (enumerate n xs) = map g xs"
proof -
  have "map g (map snd (enumerate n xs)) = map g xs"
    by (simp only: map_snd_enumerate)
  moreover have "map g (map snd (enumerate n xs)) = map (\<lambda>p. g (snd p)) (enumerate n xs)"
    by (simp only: map_map comp_def)
  ultimately show ?thesis by simp
qed

lemma map_enumerate_nth:
  "map (\<lambda>p. g (xs ! fst p) (snd p)) (enumerate 0 xs) = map (\<lambda>x. g x x) xs"
  by (rule nth_equalityI) (simp_all add: nth_enumerate_eq)

lemma assign_column_columns: "columns (assign_column c f df) = columns df"
  by (simp add: assign_column_def)

lemma assign_column_length: "length (rows (assign_column c f df)) = length (rows df)"
  by (simp add: assign_column_def)

lemma assign_column_fst: "map fst (rows (assign_column c f df)) = map fst (rows df)"
proof -
  have "map fst (rows (assign_column c f df)) = map (\<lambda>p. fst (snd p)) (enumerate 0 (rows df))"
    by (simp add: assign_column_def case_prod_unfold comp_def)
  then show ?thesis by (simp add: map_enumerate_snd)
qed

lemma assign_column_proj:
  assumes "\<And>v r. g (set_cell c v r) = g r"
  shows "map (\<lambda>ir. g (snd ir)) (rows (assign_column c f df)) = map (\<lambda>ir. g (snd ir)) (rows df)"
proof -
  have "map (\<lambda>ir. g (snd ir)) (rows (assign_column c f df))
        = map (\<lambda>p. g (snd (snd p))) (enumerate 0 (rows df))"
    by (simp add: assign_column_def case_prod_unfold comp_def assms)
  then show ?thesis by (simp add: map_enumerate_snd [where g = "\<lambda>ir. g (snd ir)"])
qed

lemma set_cell_email: "email (set_cell c v r) = email r"
  by (simp add: set_cell_def)

lemma set_cell_code: "student_code (set_cell c v r) = student_code r"
  by (simp add: set_cell_def)

lemma set_cell_gpa_other: "c \<noteq> ''gpa'' \<Longrightarrow> gpa (set_cell c v r) = gpa r"
  by (simp add: set_cell_def)

lemma cast_types_columns: "columns (fst (cast_types L T df m)) = columns df"
  by (induction L T df m rule: cast_types.induct)
     (auto simp: assign_column_columns split: option.splits)

lemma cast_types_fst: "map fst (rows (fst (cast_types L T df m))) = map fst (rows df)"
  by (induction L T df m rule: cast_types.induct)
     (auto simp: assign_column_fst split: option.splits)

lemma cast_types_email:
  "map (\<lambda>ir. email (snd ir)) (rows (fst (cast_types L T df m))) = map (\<lambda>ir. email (snd ir)) (rows df)"
  by (induction L T df m rule: cast_types.induct)
     (auto simp: assign_column_proj [where g = email, OF set_cell_email] split: option.splits)

lemma cast_types_code:
  "map (\<lambda>ir. student_code (snd ir)) (rows (fst (cast_types L T df m)))
     = map (\<lambda>ir. student_code (snd ir)) (rows df)"
  by (induction L T df m rule: cast_types.induct)
     (auto simp: assign_column_proj [where g = student_code, OF set_cell_code] split: option.splits)

lemma cast_types_log: "transformation_log (snd (cast_types L T df m)) = transformation_log T"
  by (induction L T df m rule: cast_types.induct) (auto split: option.splits)

lemma cast_types_errors:
  "filter (\<lambda>e. err_error e \<noteq> TypeCastingFailed) (validation_errors (snd (cast_types L T df m)))
     = filter (\<lambda>e. err_error e \<noteq> TypeCastingFailed) (validation_errors T)"
  by (induction L T df m rule: cast_types.induct) (auto split: option.splits)

lemma to_numeric_numeric: "numeric v \<Longrightarrow> to_numeric L v = v"
  by (cases v) (simp_all add: numeric_def to_numeric_def)

lemma numeric_coerce_gpa: "numeric (coerce_gpa L g)"
  by (cases g) (simp_all add: coerce_gpa_def numeric_def to_numeric_def clip_def split: parsed.splits)

lemma assign_column_gpa:
  "map (\<lambda>ir. gpa (snd ir)) (rows (assign_column ''gpa'' f df)) = map f [0..<length (rows df)]"
  by (rule nth_equalityI)
     (simp_all add: assign_column_def nth_enumerate_eq case_prod_unfold set_cell_def)

lemma cast_gpa_float:
  assumes "\<forall>v \<in> set (map (\<lambda>ir. gpa (snd ir)) (rows df)). numeric v"
  shows "map (\<lambda>ir. gpa (snd ir))
           (rows (assign_column ''gpa''
              (\<lambda>k. to_numeric L (map (\<lambda>ir. row_get ''gpa'' (snd ir)) (rows df) ! k)) df))
         = map (\<lambda>ir. gpa (snd ir)) (rows df)"
proof (rule nth_equalityI)
  show "length (map (\<lambda>ir. gpa (snd ir)) (rows (assign_column ''gpa''
              (\<lambda>k. to_numeric L (map (\<lambda>ir. row_get ''gpa'' (snd ir)) (rows df) ! k)) df)))
        = length (map (\<lambda>ir. gpa (snd ir)) (rows df))"
    by (simp add: assign_column_length)
next
  fix k
  assume "k < length (map (\<lambda>ir. gpa (snd ir)) (rows (assign_column ''gpa''
              (\<lambda>k. to_numeric L (map (\<lambda>ir. row_get ''gpa'' (snd ir)) (rows df) ! k)) df)))"
  then have k: "k < length (rows df)" by (simp add: assign_column_length)
  then have "numeric (gpa (snd (rows df ! k)))" using assms by simp
  then have "to_numeric L (gpa (snd (rows df ! k))) = gpa (snd (rows df ! k))"
    by (rule to_numeric_numeric)
  then show "map (\<lambda>ir. gpa (snd ir)) (rows (assign_column ''gpa''
              (\<lambda>k. to_numeric L (map (\<lambda>ir. row_get ''gpa'' (snd ir)) (rows df) ! k)) df)) ! k
        = map (\<lambda>ir. gpa (snd ir)) (rows df) ! k"
    using k by (simp add: assign_column_gpa row_get_def)
qed

lemma cast_types_gpa:
  assumes "''gpa'' \<in> set (columns df) \<longrightarrow> (\<forall>v \<in> set (map (\<lambda>ir. gpa (snd ir)) (rows df)). numeric v)"
    and "\<forall>cd \<in> set m. fst cd = ''gpa'' \<longrightarrow> snd cd = DFloat"
  shows "map (\<lambda>ir. gpa (snd ir)) (rows (fst (cast_types L T df m))) = map (\<lambda>ir. gpa (snd ir)) (rows df)"
  using assms
proof (induction L T df m rule: cast_types.induct)
  case (1 L T df)
  then show ?case by simp
next
  case (2 L T df column dt rest)
  show ?case
  proof (cases "column \<in> set (columns df)")
    case False
    then show ?thesis using 2 by simp
  next
    case incol: True
    show ?thesis
    proof (cases "cast_column L dt (map (\<lambda>ir. row_get column (snd ir)) (rows df))")
      case None
      then show ?thesis using 2 incol by simp
    next
      case (Some f)
      have keep: "map (\<lambda>ir. gpa (snd ir)) (rows (assign_column column f df))
                  = map (\<lambda>ir. gpa (snd ir)) (rows df)"
      proof (cases "column = ''gpa''")
        case True
        then have "dt = DFloat" using "2.prems"(2) by simp
        then have f: "f = (\<lambda>k. to_numeric L (map (\<lambda>ir. row_get ''gpa'' (snd ir)) (rows df) ! k))"
          using Some True by (simp add: cast_column_def)
        have "\<forall>v \<in> set (map (\<lambda>ir. gpa (snd ir)) (rows df)). numeric v"
          using "2.prems"(1) incol True by simp
        then show ?thesis unfolding True f by (rule cast_gpa_float)
      next
        case False
        then show ?thesis
          by (intro assign_column_proj) (simp add: set_cell_def)
      qed
      have "map (\<lambda>ir. gpa (snd ir)) (rows (fst (cast_types L T (assign_column column f df) rest)))
            = map (\<lambda>ir. gpa (snd ir)) (rows (assign_column column f df))"
        using "2.IH"(3) [of f] incol Some "2.prems" keep
        by (simp add: assign_column_columns)
      then show ?thesis using incol Some keep by simp
    qed
  qed
qed

lemma cast_types_kind:
  "K \<noteq> TypeCastingFailed \<Longrightarrow>
   filter (\<lambda>e. err_error e = K) (validation_errors (snd (cast_types L T df m)))
     = filter (\<lambda>e. err_error e = K) (validation_errors T)"
  by (induction L T df m rule: cast_types.induct) (auto split: option.splits)

lemma filter_report_rows:
  "filter (\<lambda>e. err_error e = K) (report_rows bad c kind df)
     = (if kind = K then report_rows bad c kind df else [])"
  by (simp add: report_rows_def filter_map comp_def case_prod_unfold)

lemma fst_step3:
  "fst (step3_gpa L df T) =
     (if ''gpa'' \<in> set (columns df)
      then map_rows (\<lambda>r. r\<lparr>gpa := coerce_gpa L (gpa r)\<rparr>) df else df)"
  by (simp add: step3_gpa_def coerce_gpa_def)

lemma snd_step3:
  "snd (step3_gpa L df T) =
     (if ''gpa'' \<in> set (columns df)
      then add_errors (report_rows (\<lambda>r. \<not> validate_gpa L (gpa r)) ''gpa'' InvalidGPA df) T
      else T)"
  by (simp add: step3_gpa_def)

lemma fst_step5:
  "fst (step5_gender L df T) =
     (if ''gender'' \<in> set (columns df)
      then map_rows (\<lambda>r. r\<lparr>gender := (case gender r of Some x \<Rightarrow> Some (py_title L (strip x))
                                          | None \<Rightarrow> None)\<rparr>) df
      else df)"
  by (simp add: step5_gender_def Let_def)

lemma map_comp_cong:
  assumes "map g xs = map g' ys"
  shows "map (\<lambda>x. f (g x)) xs = map (\<lambda>y. f (g' y)) ys"
proof -
  have "map (\<lambda>x. f (g x)) xs = map f (map g xs)" by (simp add: comp_def)
  also have "\<dots> = map f (map g' ys)" by (simp only: assms)
  finally show ?thesis by (simp add: comp_def)
qed

lemma step1_rows:
  "\<exists>h. rows (step1_clean L df) = map (\<lambda>ir. (fst ir, h (snd ir))) (rows df)
       \<and> (\<forall>r. gpa (h r) = gpa r)
       \<and> (''email'' \<in> set (columns df) \<longrightarrow> (\<forall>r. email (h r) = normalize_email (email r)))"
  by (rule exI [where x = "\<lambda>r.
        (\<lambda>r. if ''email'' \<in> set (columns df) then r\<lparr>email := normalize_email (email r)\<rparr> else r)
        ((\<lambda>r. if ''last_name'' \<in> set (columns df)
              then r\<lparr>last_name := normalize_name L (last_name r)\<rparr> else r)
         ((\<lambda>r. if ''first_name'' \<in> set (columns df)
               then r\<lparr>first_name := normalize_name L (first_name r)\<rparr> else r) r))"])
     (simp add: step1_clean_def rows_simps)

lemma before_dedup_columns: "columns (fst (before_dedup L df)) = columns df"
  by (simp add: before_dedup_def Let_def case_prod_unfold cast_types_columns fst_step3 fst_step5
      step1_columns map_rows_def)

lemma before_dedup_fst: "map fst (rows (fst (before_dedup L df))) = map fst (rows df)"
  by (simp add: before_dedup_def Let_def case_prod_unfold cast_types_fst fst_step3 fst_step5
      step1_columns step1_fst map_rows_def comp_def)

lemma before_dedup_email:
  "''email'' \<in> set (columns df) \<Longrightarrow>
   map (\<lambda>ir. email (snd ir)) (rows (fst (before_dedup L df)))
     = map (\<lambda>ir. normalize_email (email (snd ir))) (rows df)"
  by (simp add: before_dedup_def Let_def case_prod_unfold cast_types_email fst_step3 fst_step5
      step1_columns step1_email map_rows_def comp_def)

lemma before_dedup_code:
  "map (\<lambda>ir. student_code (snd ir)) (rows (fst (before_dedup L df)))
     = map (\<lambda>ir. student_code (snd ir)) (rows df)"
  by (simp add: before_dedup_def Let_def case_prod_unfold cast_types_code fst_step3 fst_step5
      step1_columns step1_code map_rows_def comp_def)

lemma before_dedup_log: "transformation_log (snd (before_dedup L df)) = []"
  by (simp add: before_dedup_def Let_def case_prod_unfold cast_types_log step5_gender_def
      step4_departments_def snd_step3 step2_emails_def add_errors_def)

lemma before_dedup_gpa:
  assumes "''gpa'' \<in> set (columns df)"
  shows "map (\<lambda>ir. gpa (snd ir)) (rows (fst (before_dedup L df)))
           = map (\<lambda>ir. coerce_gpa L (gpa (snd ir))) (rows df)"
proof -
  let ?T2 = "step2_emails (step1_clean L df) \<lparr>validation_errors = [], transformation_log = []\<rparr>"
  let ?df3 = "fst (step3_gpa L (step1_clean L df) ?T2)"
  let ?T3 = "snd (step3_gpa L (step1_clean L df) ?T2)"
  let ?df5 = "fst (step5_gender L ?df3 (step4_departments ?df3 ?T3))"
  let ?T5 = "snd (step5_gender L ?df3 (step4_departments ?df3 ?T3))"
  have bd: "fst (before_dedup L df) = fst (cast_types L ?T5 ?df5 type_mapping)"
    by (simp add: before_dedup_def Let_def case_prod_unfold)
  have g5: "map (\<lambda>ir. gpa (snd ir)) (rows ?df5) = map (\<lambda>ir. coerce_gpa L (gpa (snd ir))) (rows df)"
    using assms map_comp_cong [OF step1_gpa [of L df], of "coerce_gpa L"]
    by (simp add: fst_step3 fst_step5 step1_columns map_rows_def comp_def case_prod_unfold)
  have num: "\<forall>v \<in> set (map (\<lambda>ir. gpa (snd ir)) (rows ?df5)). numeric v"
    unfolding g5 by (simp add: numeric_coerce_gpa)
  have tm: "\<forall>cd \<in> set type_mapping. fst cd = ''gpa'' \<longrightarrow> snd cd = DFloat"
    by (simp add: type_mapping_def)
  have "map (\<lambda>ir. gpa (snd ir)) (rows (fst (cast_types L ?T5 ?df5 type_mapping)))
          = map (\<lambda>ir. gpa (snd ir)) (rows ?df5)"
    using num tm by (intro cast_types_gpa) blast+
  then show ?thesis using bd g5 by simp
qed

lemma before_dedup_email_errors:
  "filter (\<lambda>e. err_error e = InvalidEmailFormat) (validation_errors (snd (before_dedup L df))) =
     (if ''email'' \<in> set (columns df)
      then report_rows (\<lambda>r. \<not> validate_email (email r)) ''email'' InvalidEmailFormat
             (step1_clean L df) else [])"
  by (simp add: before_dedup_def Let_def case_prod_unfold cast_types_kind step5_gender_def
      step4_departments_def step3_gpa_def step2_emails_def add_errors_def filter_report_rows
      step1_columns map_rows_def)

lemma before_dedup_gpa_errors:
  "filter (\<lambda>e. err_error e = InvalidGPA) (validation_errors (snd (before_dedup L df))) =
     (if ''gpa'' \<in> set (columns df)
      then report_rows (\<lambda>r. \<not> validate_gpa L (gpa r)) ''gpa'' InvalidGPA (step1_clean L df)
      else [])"
  by (simp add: before_dedup_def Let_def case_prod_unfold cast_types_kind step5_gender_def
      step4_departments_def step3_gpa_def step2_emails_def add_errors_def filter_report_rows
      step1_columns map_rows_def)

lemma report_rows_step1_email:
  assumes "''email'' \<in> set (columns df)"
  shows "report_rows (\<lambda>r. \<not> validate_email (email r)) ''email'' InvalidEmailFormat (step1_clean L df)
         = map (\<lambda>ir. \<lparr>err_row = Some (fst ir), err_column = ''email'',
                        err_value = text_cell (normalize_email (email (snd ir))),
                        err_error = InvalidEmailFormat\<rparr>)
             (filter (\<lambda>ir. \<not> validate_email (normalize_email (email (snd ir)))) (rows df))"
proof -
  obtain h where h: "rows (step1_clean L df) = map (\<lambda>ir. (fst ir, h (snd ir))) (rows df)"
    and e: "\<forall>r. email (h r) = normalize_email (email r)"
    using step1_rows [of L df] assms by blast
  show ?thesis
    by (simp add: report_rows_def h filter_map comp_def case_prod_unfold e row_get_def)
qed

lemma report_rows_step1_gpa:
  "report_rows (\<lambda>r. \<not> validate_gpa L (gpa r)) ''gpa'' InvalidGPA (step1_clean L df)
     = map (\<lambda>ir. \<lparr>err_row = Some (fst ir), err_column = ''gpa'', err_value = gpa (snd ir),
                    err_error = InvalidGPA\<rparr>)
         (filter (\<lambda>ir. \<not> validate_gpa L (gpa (snd ir))) (rows df))"
proof -
  obtain h where h: "rows (step1_clean L df) = map (\<lambda>ir. (fst ir, h (snd ir))) (rows df)"
    and g: "\<forall>r. gpa (h r) = gpa r"
    using step1_rows [of L df] by blast
  show ?thesis
    by (simp add: report_rows_def h filter_map comp_def case_prod_unfold g row_get_def)
qed

lemma cast_types_column_errors:
  assumes "\<forall>cd \<in> set m. fst cd = c \<longrightarrow> snd cd = DFloat"
  shows "filter (\<lambda>e. err_column e = c) (validation_errors (snd (cast_types L T df m)))
           = filter (\<lambda>e. err_column e = c) (validation_errors T)"
  using assms
  by (induction L T df m rule: cast_types.induct)
     (auto simp: cast_column_def split: option.splits)

lemma filter_report_rows_column:
  "filter (\<lambda>e. err_column e = c') (report_rows bad c kind df)
     = (if c = c' then report_rows bad c kind df else [])"
  by (simp add: report_rows_def filter_map comp_def case_prod_unfold)

lemma before_dedup_gpa_column_errors:
  "filter (\<lambda>e. err_column e = ''gpa'') (validation_errors (snd (before_dedup L df))) =
     (if ''gpa'' \<in> set (columns df)
      then report_rows (\<lambda>r. \<not> validate_gpa L (gpa r)) ''gpa'' InvalidGPA (step1_clean L df)
      else [])"
proof -
  have tm: "\<forall>cd \<in> set type_mapping. fst cd = ''gpa'' \<longrightarrow> snd cd = DFloat"
    by (simp add: type_mapping_def)
  show ?thesis
    by (simp add: before_dedup_def Let_def case_prod_unfold cast_types_column_errors [OF tm]
        step5_gender_def step4_departments_def step3_gpa_def step2_emails_def add_errors_def
        filter_report_rows_column step1_columns map_rows_def)
qed

lemma deduplicate_first:
  assumes "c \<in> set (columns df)"
  shows "deduplicate T df [c] KeepFirst
            = Inr (df\<lparr>rows := drop_dups (subset_key [c]) [] (rows df)\<rparr>,
                   T\<lparr>transformation_log := transformation_log T
                        @ dedup_log (length (rows df)
                                      - length (drop_dups (subset_key [c]) [] (rows df)))\<rparr>)"
  using assms by (simp add: deduplicate_def drop_duplicates_def Let_def dedup_log_def)

lemma step8_filter_ok:
  assumes "''email'' \<in> set (columns df)"
  shows "step8_filter df T
            = Inr (df\<lparr>rows := filter (\<lambda>ir. validate_email (email (snd ir))) (rows df)\<rparr>,
                   T\<lparr>transformation_log := transformation_log T
                        @ invalid_log (length (rows df)
                            - length (filter (\<lambda>ir. validate_email (email (snd ir))) (rows df)))\<rparr>)"
  using assms by (simp add: step8_filter_def Let_def case_prod_unfold invalid_log_def)

lemma step8_filter_raises:
  assumes "''email'' \<notin> set (columns df)"
  shows "step8_filter df T = Inl (KeyError ''email'', T)"
  using assms by (simp add: step8_filter_def)

text \<open>Deduplication and filtering of two lists whose elements correspond.\<close>

lemma drop_dups_rel:
  assumes "list_all2 Q ys xs" and "\<And>y x. Q y x \<Longrightarrow> k1 y = k2 x"
  shows "list_all2 Q (drop_dups k1 seen ys) (drop_dups k2 seen xs)"
  using assms(1)
proof (induction arbitrary: seen rule: list_all2_induct)
  case Nil
  then show ?case by simp
next
  case (Cons y ys x xs)
  have "k1 y = k2 x" using Cons.hyps(1) by (rule assms(2))
  then show ?case using Cons.hyps(1) Cons.IH by simp
qed

lemma filter_rel:
  assumes "list_all2 Q ys xs" and "\<And>y x. Q y x \<Longrightarrow> p1 y = p2 x"
  shows "list_all2 Q (filter p1 ys) (filter p2 xs)"
  using assms(1)
proof (induction rule: list_all2_induct)
  case Nil
  then show ?case by simp
next
  case (Cons y ys x xs)
  have "p1 y = p2 x" using Cons.hyps(1) by (rule assms(2))
  then show ?case using Cons.hyps(1) Cons.IH by simp
qed

lemma rel_map_eq:
  assumes "list_all2 Q ys xs" and "\<And>y x. Q y x \<Longrightarrow> f y = g x"
  shows "map f ys = map g xs"
  using assms(1)
proof (induction rule: list_all2_induct)
  case Nil
  then show ?case by simp
next
  case (Cons y ys x xs)
  have "f y = g x" using Cons.hyps(1) by (rule assms(2))
  then show ?case using Cons.IH by simp
qed

lemma drop_dups_inj:
  assumes "inj h"
  shows "drop_dups (\<lambda>x. h (k x)) (map h seen) xs = drop_dups k seen xs"
proof (induction xs arbitrary: seen)
  case Nil
  then show ?case by simp
next
  case (Cons x xs)
  have m: "(h (k x) \<in> set (map h seen)) = (k x \<in> set seen)"
    using assms by (auto simp: inj_def)
  show ?case
  proof (cases "k x \<in> set seen")
    case True
    then show ?thesis using m Cons.IH [of seen] by simp
  next
    case False
    then show ?thesis using m Cons.IH [of "k x # seen"] by simp
  qed
qed

lemma text_cell_inj: "inj (\<lambda>v. [text_cell v])"
  by (auto simp: inj_def text_cell_def split: option.splits)

lemma drop_dups_email:
  "drop_dups (subset_key [''email'']) [] ys = drop_dups (\<lambda>ir. email (snd ir)) [] ys"
proof -
  have k: "subset_key [''email''] = (\<lambda>ir. [text_cell (email (snd ir))])"
    by (rule ext) (simp add: subset_key_def row_get_def)
  have "drop_dups (\<lambda>x. (\<lambda>v. [text_cell v]) (email (snd x))) (map (\<lambda>v. [text_cell v]) []) ys
        = drop_dups (\<lambda>ir. email (snd ir)) [] ys"
    by (rule drop_dups_inj [OF text_cell_inj])
  then show ?thesis by (simp add: k)
qed

lemma drop_dups_code:
  "drop_dups (subset_key [''student_code'']) [] ys
     = drop_dups (\<lambda>ir. student_code (snd ir)) [] ys"
proof -
  have k: "subset_key [''student_code''] = (\<lambda>ir. [text_cell (student_code (snd ir))])"
    by (rule ext) (simp add: subset_key_def row_get_def)
  have "drop_dups (\<lambda>x. (\<lambda>v. [text_cell v]) (student_code (snd x)))
          (map (\<lambda>v. [text_cell v]) []) ys
        = drop_dups (\<lambda>ir. student_code (snd ir)) [] ys"
    by (rule drop_dups_inj [OF text_cell_inj])
  then show ?thesis by (simp add: k)
qed

text \<open>The table after steps 1 to 6, row by row.\<close>

lemma before_dedup_rows:
  assumes "''email'' \<in> set (columns df)"
  shows "list_all2 (cleaned_row L df) (rows (fst (before_dedup L df))) (rows df)"
proof -
  let ?ys = "rows (fst (before_dedup L df))"
  have len: "length ?ys = length (rows df)"
    using arg_cong [OF before_dedup_fst [of L df], of length] by simp
  have "\<And>k. k < length ?ys \<Longrightarrow> cleaned_row L df (?ys ! k) (rows df ! k)"
  proof -
    fix k assume k: "k < length ?ys"
    then have k': "k < length (rows df)" using len by simp
    have 1: "fst (?ys ! k) = fst (rows df ! k)"
      using arg_cong [OF before_dedup_fst [of L df], of "\<lambda>l. l ! k"] k k' by simp
    have 2: "email (snd (?ys ! k)) = normalize_email (email (snd (rows df ! k)))"
      using arg_cong [OF before_dedup_email [OF assms, of L], of "\<lambda>l. l ! k"] k k' by simp
    have 3: "student_code (snd (?ys ! k)) = student_code (snd (rows df ! k))"
      using arg_cong [OF before_dedup_code [of L df], of "\<lambda>l. l ! k"] k k' by simp
    have 4: "''gpa'' \<in> set (columns df) \<longrightarrow>
             gpa (snd (?ys ! k)) = coerce_gpa L (gpa (snd (rows df ! k)))"
    proof
      assume g: "''gpa'' \<in> set (columns df)"
      show "gpa (snd (?ys ! k)) = coerce_gpa L (gpa (snd (rows df ! k)))"
        using arg_cong [OF before_dedup_gpa [OF g, of L], of "\<lambda>l. l ! k"] k k' by simp
    qed
    show "cleaned_row L df (?ys ! k) (rows df ! k)"
      using 1 2 3 4 by (simp add: cleaned_row_def email_key_def code_key_def)
  qed
  then show ?thesis using len by (simp add: list_all2_conv_all_nth)
qed

text \<open>Steps 7 and 8, for a table with an email column.\<close>

lemma transform_students_rows:
  assumes "''email'' \<in> set (columns df)"
  shows "\<exists>df7 T7 out T.
      dedup_stage L df = Inr (df7, T7) \<and> transform_students L df = Inr (out, T)
    \<and> columns out = columns df
    \<and> list_all2 (cleaned_row L df) (rows df7) (deduped df)
    \<and> list_all2 (cleaned_row L df) (rows out) (kept df)
    \<and> rows out = filter (\<lambda>ir. validate_email (email (snd ir))) (rows df7)
    \<and> validation_errors T = validation_errors (snd (before_dedup L df))
    \<and> transformation_log T
        = dedup_log (length (rows df) - length (email_deduped df))
          @ dedup_log (length (email_deduped df) - length (deduped df))
          @ invalid_log (length (deduped df) - length (kept df))"
proof -
  let ?df6 = "fst (before_dedup L df)" and ?T6 = "snd (before_dedup L df)"
  let ?Q = "cleaned_row L df"
  have c6: "columns ?df6 = columns df" by (rule before_dedup_columns)
  have r6: "list_all2 ?Q (rows ?df6) (rows df)" using assms by (rule before_dedup_rows)
  have qe: "\<And>y x. ?Q y x \<Longrightarrow> email (snd y) = email_key x" by (simp add: cleaned_row_def)
  have qc: "\<And>y x. ?Q y x \<Longrightarrow> student_code (snd y) = code_key x"
    by (simp add: cleaned_row_def)
  have qv: "\<And>y x. ?Q y x \<Longrightarrow> validate_email (email (snd y)) = validate_email (email_key x)"
    by (simp add: cleaned_row_def)
  define dfe where "dfe = ?df6\<lparr>rows := drop_dups (subset_key [''email'']) [] (rows ?df6)\<rparr>"
  define Te where "Te = ?T6\<lparr>transformation_log := transformation_log ?T6
      @ dedup_log (length (rows ?df6) - length (rows dfe))\<rparr>"
  have e: "deduplicate ?T6 ?df6 [''email''] KeepFirst = Inr (dfe, Te)"
    using deduplicate_first [of "''email''" ?df6 ?T6] assms c6 by (simp add: dfe_def Te_def)
  have ce: "columns dfe = columns df" by (simp add: dfe_def c6)
  have re: "list_all2 ?Q (rows dfe) (email_deduped df)"
    unfolding dfe_def email_deduped_def using drop_dups_rel [OF r6 qe]
    by (simp add: drop_dups_email)
  define df7 where "df7 = (if ''student_code'' \<in> set (columns df)
      then dfe\<lparr>rows := drop_dups (subset_key [''student_code'']) [] (rows dfe)\<rparr> else dfe)"
  define T7 where "T7 = (if ''student_code'' \<in> set (columns df)
      then Te\<lparr>transformation_log := transformation_log Te
             @ dedup_log (length (rows dfe) - length (rows df7))\<rparr> else Te)"
  have s: "(if ''student_code'' \<in> set (columns dfe)
            then deduplicate Te dfe [''student_code''] KeepFirst else Inr (dfe, Te))
           = Inr (df7, T7)"
    using deduplicate_first [of "''student_code''" dfe Te] ce
    by (simp add: df7_def T7_def)
  have c7: "columns df7 = columns df" by (simp add: df7_def ce)
  have r7: "list_all2 ?Q (rows df7) (deduped df)"
  proof (cases "''student_code'' \<in> set (columns df)")
    case True
    then show ?thesis
      unfolding df7_def deduped_def using drop_dups_rel [OF re qc]
      by (simp add: drop_dups_code)
  next
    case False
    then show ?thesis unfolding df7_def deduped_def using re by simp
  qed
  have "step7_dedup ?df6 ?T6 = Inr (df7, T7)"
    unfolding step7_dedup_def using assms c6 by (simp only: if_True e sum.case prod.case s)
  then have d: "dedup_stage L df = Inr (df7, T7)"
    by (simp add: dedup_stage_def case_prod_unfold)
  define out where "out = df7\<lparr>rows := filter (\<lambda>ir. validate_email (email (snd ir))) (rows df7)\<rparr>"
  define T where "T = T7\<lparr>transformation_log := transformation_log T7
      @ invalid_log (length (rows df7) - length (rows out))\<rparr>"
  have t: "transform_students L df = Inr (out, T)"
    using d step8_filter_ok [of df7 T7] assms c7
    by (simp add: transform_students_def out_def T_def)
  have co: "columns out = columns df" by (simp add: out_def c7)
  have ro: "rows out = filter (\<lambda>ir. validate_email (email (snd ir))) (rows df7)"
    by (simp add: out_def)
  have rk: "list_all2 ?Q (rows out) (kept df)"
    unfolding ro kept_def using r7 qv by (rule filter_rel)
  have l6: "length (rows ?df6) = length (rows df)" using r6 by (rule list_all2_lengthD)
  have le: "length (rows dfe) = length (email_deduped df)" using re by (rule list_all2_lengthD)
  have l7: "length (rows df7) = length (deduped df)" using r7 by (rule list_all2_lengthD)
  have lo: "length (rows out) = length (kept df)" using rk by (rule list_all2_lengthD)
  have same: "''student_code'' \<notin> set (columns df) \<Longrightarrow> deduped df = email_deduped df"
    by (simp add: deduped_def)
  have v: "validation_errors T = validation_errors ?T6"
    by (simp add: T_def T7_def Te_def)
  have lg: "transformation_log T
        = dedup_log (length (rows df) - length (email_deduped df))
          @ dedup_log (length (email_deduped df) - length (deduped df))
          @ invalid_log (length (deduped df) - length (kept df))"
  proof (cases "''student_code'' \<in> set (columns df)")
    case True
    then show ?thesis
      by (simp add: T_def T7_def Te_def before_dedup_log l6 le l7 lo)
  next
    case False
    then show ?thesis
      by (simp add: T_def T7_def Te_def before_dedup_log l6 le l7 lo same dedup_log_def)
  qed
  show ?thesis
    by (intro exI [of _ df7] exI [of _ T7] exI [of _ out] exI [of _ T] conjI d t co r7 rk ro v lg)
qed

text \<open>Without an email column step 8 raises, with the entries of steps 1 to 6 recorded.\<close>

lemma transform_students_raises:
  assumes "''email'' \<notin> set (columns df)"
  shows "\<exists>T. transform_students L df = Inl (KeyError ''email'', T)
           \<and> validation_errors T = validation_errors (snd (before_dedup L df))"
proof -
  let ?df6 = "fst (before_dedup L df)" and ?T6 = "snd (before_dedup L df)"
  have c6: "columns ?df6 = columns df" by (rule before_dedup_columns)
  define df7 where "df7 = (if ''student_code'' \<in> set (columns df)
      then ?df6\<lparr>rows := drop_dups (subset_key [''student_code'']) [] (rows ?df6)\<rparr> else ?df6)"
  define T7 where "T7 = (if ''student_code'' \<in> set (columns df)
      then ?T6\<lparr>transformation_log := transformation_log ?T6
             @ dedup_log (length (rows ?df6) - length (rows df7))\<rparr> else ?T6)"
  have s: "(if ''student_code'' \<in> set (columns ?df6)
            then deduplicate ?T6 ?df6 [''student_code''] KeepFirst else Inr (?df6, ?T6))
           = Inr (df7, T7)"
    using deduplicate_first [of "''student_code''" ?df6 ?T6] c6
    by (simp add: df7_def T7_def)
  have c7: "''email'' \<notin> set (columns df7)" using assms by (simp add: df7_def c6)
  have "step7_dedup ?df6 ?T6
          = (if ''student_code'' \<in> set (columns ?df6)
             then deduplicate ?T6 ?df6 [''student_code''] KeepFirst else Inr (?df6, ?T6))"
    using assms by (simp add: step7_dedup_def c6 case_prod_unfold)
  then have "step7_dedup ?df6 ?T6 = Inr (df7, T7)" by (simp only: s)
  then have d: "dedup_stage L df = Inr (df7, T7)"
    by (simp add: dedup_stage_def case_prod_unfold)
  have t: "transform_students L df = Inl (KeyError ''email'', T7)"
    using d step8_filter_raises [OF c7, of T7] by (simp add: transform_students_def)
  have v: "validation_errors T7 = validation_errors ?T6" by (simp add: T7_def)
  show ?thesis by (intro exI [of _ T7] conjI t v)
qed

lemma map_pair_eq:
  assumes "map f xs = map f' ys" and "map g xs = map g' ys"
  shows "map (\<lambda>x. (f x, g x)) xs = map (\<lambda>y. (f' y, g' y)) ys"
proof (rule nth_equalityI)
  show len: "length (map (\<lambda>x. (f x, g x)) xs) = length (map (\<lambda>y. (f' y, g' y)) ys)"
    using assms(1) by (metis length_map)
  fix k assume "k < length (map (\<lambda>x. (f x, g x)) xs)"
  then have k: "k < length xs" "k < length ys" using len by simp_all
  have "map f xs ! k = map f' ys ! k" "map g xs ! k = map g' ys ! k" using assms by simp_all
  then show "map (\<lambda>x. (f x, g x)) xs ! k = map (\<lambda>y. (f' y, g' y)) ys ! k"
    using k by simp
qed

lemma subseq_in_set: "subseq xs ys \<Longrightarrow> x \<in> set xs \<Longrightarrow> x \<in> set ys"
  by (induction rule: list_emb.induct) auto

lemma deduped_subseq: "subseq (deduped df) (rows df)"
proof -
  have e: "subseq (email_deduped df) (rows df)"
    by (simp add: email_deduped_def drop_dups_subseq)
  show ?thesis
  proof (cases "''student_code'' \<in> set (columns df)")
    case True
    have "subseq (drop_dups code_key [] (email_deduped df)) (email_deduped df)"
      by (rule drop_dups_subseq)
    then have "subseq (drop_dups code_key [] (email_deduped df)) (rows df)"
      using e by (rule subseq_order.trans)
    then show ?thesis using True by (simp add: deduped_def)
  next
    case False
    then show ?thesis using e by (simp add: deduped_def)
  qed
qed

lemma email_deduped_length: "length (email_deduped df) \<le> length (rows df)"
  by (simp add: email_deduped_def drop_dups_length)

lemma deduped_length: "length (deduped df) \<le> length (email_deduped df)"
  by (simp add: deduped_def drop_dups_length)

lemma kept_in_rows: "x \<in> set (kept df) \<Longrightarrow> x \<in> set (rows df) \<and> validate_email (email_key x)"
  using subseq_in_set [OF deduped_subseq, of x df] by (simp add: kept_def)

lemma kept_length:
  "length (kept df) + length (filter (\<lambda>ir. \<not> validate_email (email_key ir)) (deduped df))
     = length (deduped df)"
  unfolding kept_def by (rule sum_length_filter_compl)

lemma invalid_email_reported:
  assumes "''email'' \<in> set (columns df)" and "ir \<in> set (rows df)"
    and "\<not> validate_email (email_key ir)"
  shows "\<lparr>err_row = Some (fst ir), err_column = ''email'',
            err_value = text_cell (email_key ir),
            err_error = InvalidEmailFormat\<rparr>
         \<in> set (validation_errors (snd (before_dedup L df)))"
proof -
  let ?mk = "\<lambda>ir. \<lparr>err_row = Some (fst ir), err_column = ''email'',
            err_value = text_cell (normalize_email (email (snd ir))),
            err_error = InvalidEmailFormat\<rparr>"
  let ?bad = "\<lambda>ir. \<not> validate_email (normalize_email (email (snd ir)))"
  have "ir \<in> set (filter ?bad (rows df))" using assms(2,3) by (simp add: email_key_def)
  then have "?mk ir \<in> ?mk ` set (filter ?bad (rows df))" by (rule imageI)
  then have "?mk ir \<in> set (report_rows (\<lambda>r. \<not> validate_email (email r)) ''email''
                InvalidEmailFormat (step1_clean L df))"
    by (simp only: report_rows_step1_email [OF assms(1)] set_map)
  then have "?mk ir \<in> set (filter (\<lambda>e. err_error e = InvalidEmailFormat)
                 (validation_errors (snd (before_dedup L df))))"
    using assms(1) by (simp only: before_dedup_email_errors if_True)
  then show ?thesis by (simp add: email_key_def)
qed

text \<open>
  C3 (as amended).  For a table with an email column, \<^verbatim>\<open>transform_students\<close> returns.
  Steps 1 to 6 remove no row.  Step 7 removes the duplicates and nothing else: the table
  it leaves has the rows of \<open>deduped\<close>, the input without every row whose normalised
  email an earlier row has and then without every row whose student code an earlier
  remaining row has.  Step 8 removes from these the rows with an invalid email and
  nothing else: the cleaned table has the rows of \<open>kept\<close>, with their labels and their
  normalised emails.  Every row of the input whose email fails validation after
  normalisation has its entry in the validation report; the cleaned table holds no row
  with an invalid email, and when the index labels are distinct the label of such a row
  is not in the cleaned table.  The row count of the cleaned table is the input count
  minus the rows removed by deduplication minus the invalid-email rows that
  deduplication left, and these are the numbers that the transformer logs.
\<close>

theorem C3_email_filter:
  assumes "''email'' \<in> set (columns df)"
  shows "\<exists>df7 T7 out T.
      dedup_stage L df = Inr (df7, T7) \<and> transform_students L df = Inr (out, T)
    \<and> map fst (rows (fst (before_dedup L df))) = map fst (rows df)
    \<and> map fst (rows df7) = map fst (deduped df)
    \<and> map (\<lambda>ir. (fst ir, email (snd ir))) (rows out)
        = map (\<lambda>ir. (fst ir, email_key ir)) (kept df)
    \<and> (\<forall>ir \<in> set (rows df). \<not> validate_email (email_key ir) \<longrightarrow>
          \<lparr>err_row = Some (fst ir), err_column = ''email'',
            err_value = text_cell (email_key ir),
            err_error = InvalidEmailFormat\<rparr> \<in> set (validation_errors T))
    \<and> (\<forall>ir \<in> set (rows out). validate_email (email (snd ir)))
    \<and> (distinct (map fst (rows df)) \<longrightarrow>
         (\<forall>ir \<in> set (rows df). \<not> validate_email (email_key ir) \<longrightarrow>
            fst ir \<notin> fst ` set (rows out)))
    \<and> int (length (rows out))
        = int (length (rows df)) - int (length (rows df) - length (deduped df))
          - int (length (filter (\<lambda>ir. \<not> validate_email (email_key ir)) (deduped df)))
    \<and> transformation_log T
        = dedup_log (length (rows df) - length (email_deduped df))
          @ dedup_log (length (email_deduped df) - length (deduped df))
          @ invalid_log (length (filter (\<lambda>ir. \<not> validate_email (email_key ir)) (deduped df)))"
proof -
  let ?Q = "cleaned_row L df"
  from transform_students_rows [OF assms, of L] obtain df7 T7 out T where
    d: "dedup_stage L df = Inr (df7, T7)" and t: "transform_students L df = Inr (out, T)"
    and r7: "list_all2 ?Q (rows df7) (deduped df)"
    and rk: "list_all2 ?Q (rows out) (kept df)"
    and ro: "rows out = filter (\<lambda>ir. validate_email (email (snd ir))) (rows df7)"
    and v: "validation_errors T = validation_errors (snd (before_dedup L df))"
    and lg: "transformation_log T
        = dedup_log (length (rows df) - length (email_deduped df))
          @ dedup_log (length (email_deduped df) - length (deduped df))
          @ invalid_log (length (deduped df) - length (kept df))"
    by (elim exE conjE)
  have a: "map fst (rows (fst (before_dedup L df))) = map fst (rows df)"
    by (rule before_dedup_fst)
  have b: "map fst (rows df7) = map fst (deduped df)"
    using r7 by (rule rel_map_eq) (simp add: cleaned_row_def)
  have c: "map (\<lambda>ir. (fst ir, email (snd ir))) (rows out)
        = map (\<lambda>ir. (fst ir, email_key ir)) (kept df)"
    using rk by (rule rel_map_eq) (simp add: cleaned_row_def)
  have e: "\<forall>ir \<in> set (rows df). \<not> validate_email (email_key ir) \<longrightarrow>
          \<lparr>err_row = Some (fst ir), err_column = ''email'',
            err_value = text_cell (email_key ir),
            err_error = InvalidEmailFormat\<rparr> \<in> set (validation_errors T)"
    unfolding v using invalid_email_reported [OF assms] by blast
  have f: "\<forall>ir \<in> set (rows out). validate_email (email (snd ir))" by (simp add: ro)
  have g: "distinct (map fst (rows df)) \<longrightarrow>
         (\<forall>ir \<in> set (rows df). \<not> validate_email (email_key ir) \<longrightarrow>
            fst ir \<notin> fst ` set (rows out))"
  proof (intro impI ballI notI)
    fix ir assume dist: "distinct (map fst (rows df))" and ir: "ir \<in> set (rows df)"
      and bad: "\<not> validate_email (email_key ir)"
      and "fst ir \<in> fst ` set (rows out)"
    then have "fst ir \<in> set (map fst (rows out))" by simp
    also have "map fst (rows out) = map fst (kept df)"
      using rk by (rule rel_map_eq) (simp add: cleaned_row_def)
    finally obtain kr where kr: "kr \<in> set (kept df)" "fst kr = fst ir" by auto
    from kept_in_rows [OF kr(1)] have k: "kr \<in> set (rows df)" "validate_email (email_key kr)"
      by simp_all
    have inj: "inj_on fst (set (rows df))" using dist by (simp add: distinct_map)
    have "kr = ir" using inj_onD [OF inj, of kr ir] k(1) kr(2) ir by simp
    then show False using k(2) bad by simp
  qed
  have lo: "length (rows out) = length (kept df)" using rk by (rule list_all2_lengthD)
  have h: "int (length (rows out))
        = int (length (rows df)) - int (length (rows df) - length (deduped df))
          - int (length (filter (\<lambda>ir. \<not> validate_email (email_key ir)) (deduped df)))"
    using kept_length [of df] deduped_length [of df] email_deduped_length [of df] lo by simp
  have i: "transformation_log T
        = dedup_log (length (rows df) - length (email_deduped df))
          @ dedup_log (length (email_deduped df) - length (deduped df))
          @ invalid_log (length (filter (\<lambda>ir. \<not> validate_email (email_key ir)) (deduped df)))"
  proof -
    have "length (deduped df) - length (kept df)
          = length (filter (\<lambda>ir. \<not> validate_email (email_key ir)) (deduped df))"
      using kept_length [of df] by arith
    then show ?thesis using lg by (simp only:)
  qed
  show ?thesis
    by (intro exI [of _ df7] exI [of _ T7] exI [of _ out] exI [of _ T] conjI d t a b c e f g h i)
qed

lemma validate_gpa_examples:
  "\<not> validate_gpa L (Num (Fin 5))" "\<not> validate_gpa L (Num (Fin (- 1)))"
  "validate_gpa L (Num (Fin 3.5))"
  by (simp_all add: validate_gpa_def fl_le_def isna_def)

lemma coerce_gpa_examples:
  "coerce_gpa L (Num (Fin 5)) = Num (Fin 4)" "coerce_gpa L (Num (Fin (- 1))) = Num (Fin 0)"
  "coerce_gpa L (Num (Fin 3.5)) = Num (Fin 3.5)"
  by (simp_all add: coerce_gpa_def clip_def to_numeric_def fl_le_def)

lemma coerce_gpa_valid:
  "numeric g \<Longrightarrow> validate_gpa L g \<Longrightarrow> coerce_gpa L g = g"
  by (cases g)
     (auto simp: numeric_def validate_gpa_def coerce_gpa_def clip_def to_numeric_def isna_def)

lemma coerce_gpa_clamp:
  "\<not> validate_gpa L (Num (Fin x)) \<Longrightarrow>
   coerce_gpa L (Num (Fin x)) = (if 4 < x then Num (Fin 4) else Num (Fin 0))"
  by (auto simp: validate_gpa_def coerce_gpa_def clip_def to_numeric_def isna_def fl_le_def)

lemma gpa_unparseable:
  "py_float L s = Bad \<Longrightarrow> \<not> validate_gpa L (Str s)"
  "pd_to_numeric L s = Bad \<Longrightarrow> coerce_gpa L (Str s) = Num NaN"
  by (simp_all add: validate_gpa_def coerce_gpa_def clip_def to_numeric_def isna_def)

lemma transform_students_gpa_errors:
  assumes "''gpa'' \<in> set (columns df)"
  shows "filter (\<lambda>e. err_column e = ''gpa'')
           (validation_errors (transformer_after (transform_students L df)))
         = map (\<lambda>ir. \<lparr>err_row = Some (fst ir), err_column = ''gpa'', err_value = gpa (snd ir),
                        err_error = InvalidGPA\<rparr>)
             (filter (\<lambda>ir. \<not> validate_gpa L (gpa (snd ir))) (rows df))"
proof -
  have "validation_errors (transformer_after (transform_students L df))
          = validation_errors (snd (before_dedup L df))"
  proof (cases "''email'' \<in> set (columns df)")
    case True
    from transform_students_rows [OF True, of L] obtain out T where
      "transform_students L df = Inr (out, T)"
      "validation_errors T = validation_errors (snd (before_dedup L df))"
      by (elim exE conjE)
    then show ?thesis by (simp add: transformer_after_def)
  next
    case False
    from transform_students_raises [OF False, of L] obtain T where
      "transform_students L df = Inl (KeyError ''email'', T)"
      "validation_errors T = validation_errors (snd (before_dedup L df))"
      by (elim exE conjE)
    then show ?thesis by (simp add: transformer_after_def)
  qed
  then show ?thesis
    using assms by (simp only: before_dedup_gpa_column_errors if_True report_rows_step1_gpa)
qed


text \<open>
  C3 as stated fails on the row count.  Two rows carry the same unparseable email: both
  are invalid-email rows, deduplication removes one of them, the filter removes the
  other, and the cleaned table is empty, while the input count minus the invalid-email
  rows minus the rows removed by deduplication is \<open>2 - 2 - 1\<close>.
\<close>

theorem C3_row_count_counterexample:
  "transform_students plain_lib bad_twice
     = Inr (\<lparr>columns = student_columns, rows = []\<rparr>,
            \<lparr>validation_errors =
               [\<lparr>err_row = Some 0, err_column = ''email'', err_value = Str ''bad'',
                 err_error = InvalidEmailFormat\<rparr>,
                \<lparr>err_row = Some 1, err_column = ''email'', err_value = Str ''bad'',
                 err_error = InvalidEmailFormat\<rparr>],
              transformation_log = [DedupRemoved 1, InvalidRemoved 1]\<rparr>)
   \<and> length (rows bad_twice) = 2
   \<and> length (invalid_email_rows bad_twice) = 2
   \<and> length (rows (fst (projr (dedup_stage plain_lib bad_twice)))) = 1
   \<and> int (length (rows (fst (projr (transform_students plain_lib bad_twice)))))
       \<noteq> int (length (rows bad_twice)) - int (length (invalid_email_rows bad_twice))
           - int (length (rows bad_twice)
                   - length (rows (fst (projr (dedup_stage plain_lib bad_twice)))))"
  by code_simp

text \<open>
  The amended C3 at the table of five students: deduplication removes the second (the
  email of the first) and the fifth (the student code of the first), the filter removes
  the third, and the rows with the labels 0 and 3 are returned.
\<close>

theorem C3_email_filter_witness:
  "''email'' \<in> set (columns mixed_table)
   \<and> distinct (map fst (rows mixed_table))
   \<and> (\<exists>df7 T7 out T.
      dedup_stage plain_lib mixed_table = Inr (df7, T7)
    \<and> transform_students plain_lib mixed_table = Inr (out, T)
    \<and> map fst (rows df7) = [0, 2, 3]
    \<and> map (\<lambda>ir. (fst ir, email (snd ir))) (rows out)
        = [(0, Some ''a@x.com''), (3, Some ''b@x.com'')]
    \<and> \<lparr>err_row = Some 2, err_column = ''email'', err_value = Str ''bad'',
         err_error = InvalidEmailFormat\<rparr> \<in> set (validation_errors T)
    \<and> (\<forall>ir \<in> set (rows out). validate_email (email (snd ir)))
    \<and> 2 \<notin> fst ` set (rows out)
    \<and> int (length (rows out)) = 5 - 2 - 1
    \<and> transformation_log T = [DedupRemoved 1, DedupRemoved 1, InvalidRemoved 1])"
proof -
  have em: "''email'' \<in> set (columns mixed_table)" by code_simp
  have dist: "distinct (map fst (rows mixed_table))" by code_simp
  have r2: "(2, empty_row\<lparr>student_code := Some ''S3'', email := Some ''bad''\<rparr>)
              \<in> set (rows mixed_table)"
    by (simp add: mixed_table_def)
  have bad: "\<not> validate_email
                 (email_key (2, empty_row\<lparr>student_code := Some ''S3'', email := Some ''bad''\<rparr>))"
    by code_simp
  have tc: "text_cell (email_key (2, empty_row\<lparr>student_code := Some ''S3'',
                                                email := Some ''bad''\<rparr>)) = Str ''bad''"
    by code_simp
  have dd: "map fst (deduped mixed_table) = [0, 2, 3]" by code_simp
  have kp: "map (\<lambda>ir. (fst ir, email_key ir)) (kept mixed_table)
              = [(0, Some ''a@x.com''), (3, Some ''b@x.com'')]"
    by code_simp
  have n: "int (length (rows mixed_table))
             - int (length (rows mixed_table) - length (deduped mixed_table))
             - int (length (filter (\<lambda>ir. \<not> validate_email (email_key ir)) (deduped mixed_table)))
           = 5 - 2 - 1"
    by code_simp
  have lg: "dedup_log (length (rows mixed_table) - length (email_deduped mixed_table))
          @ dedup_log (length (email_deduped mixed_table) - length (deduped mixed_table))
          @ invalid_log (length (filter (\<lambda>ir. \<not> validate_email (email_key ir))
                                   (deduped mixed_table)))
          = [DedupRemoved 1, DedupRemoved 1, InvalidRemoved 1]"
    by code_simp
  from C3_email_filter [OF em, of plain_lib] show ?thesis
  proof (elim exE conjE, goal_cases)
    case (1 df7 T7 out T)
    have a: "map fst (rows df7) = [0, 2, 3]" using 1(4) by (simp only: dd)
    have b: "map (\<lambda>ir. (fst ir, email (snd ir))) (rows out)
               = [(0, Some ''a@x.com''), (3, Some ''b@x.com'')]"
      using 1(5) by (simp only: kp)
    have c: "\<lparr>err_row = Some 2, err_column = ''email'', err_value = Str ''bad'',
         err_error = InvalidEmailFormat\<rparr> \<in> set (validation_errors T)"
      using bspec [OF 1(6) r2] bad tc by simp
    have "\<forall>ir \<in> set (rows mixed_table).
            \<not> validate_email (email_key ir) \<longrightarrow> fst ir \<notin> fst ` set (rows out)"
      using 1(8) dist by (rule mp)
    from bspec [OF this r2] bad have d: "2 \<notin> fst ` set (rows out)" by simp
    have e: "int (length (rows out)) = 5 - 2 - 1" using 1(9) by (simp only: n)
    have f: "transformation_log T = [DedupRemoved 1, DedupRemoved 1, InvalidRemoved 1]"
      using 1(10) by (simp only: lg)
    show ?case
      by (intro conjI em dist exI [of _ df7] exI [of _ T7] exI [of _ out] exI [of _ T]
          1(1) 1(2) a b c 1(7) d e f)
  qed
qed


section \<open>The phone validator\<close>

text \<open>
  What \<^verbatim>\<open>validate_phone\<close> computes on a string that is not blank: the characters of
  the substitution's class are removed and the rest must be ten to fifteen digits.
\<close>

lemma at_end_no_space: "list_all (\<lambda>c. \<not> is_space c) s \<Longrightarrow> at_end s = (s = [])"
  by (auto simp: at_end_def is_space_def code_def)

lemma digits_10_15_match_plain:
  assumes "list_all (\<lambda>c. \<not> is_space c) d"
  shows "digits_10_15_match d = (10 \<le> length d \<and> length d \<le> 15 \<and> list_all is_digit d)"
proof -
  have e: "\<And>k. at_end (drop k d) = (length d \<le> k)"
  proof -
    fix k
    have "list_all (\<lambda>c. \<not> is_space c) (drop k d)"
      using assms by (auto simp: list_all_iff dest: in_set_dropD)
    then show "at_end (drop k d) = (length d \<le> k)" by (simp add: at_end_no_space)
  qed
  show ?thesis
  proof
    assume "digits_10_15_match d"
    then obtain k where "10 \<le> k" "k < 16" "k \<le> length d" "list_all is_digit (take k d)"
      "length d \<le> k"
      by (auto simp: digits_10_15_match_def list_ex_iff e)
    then show "10 \<le> length d \<and> length d \<le> 15 \<and> list_all is_digit d" by simp
  next
    assume a: "10 \<le> length d \<and> length d \<le> 15 \<and> list_all is_digit d"
    then have "length d \<in> {10..<16}" by simp
    then have "length d \<in> set [10..<16]" by (simp only: set_upt)
    moreover have "length d \<le> length d \<and> list_all is_digit (take (length d) d)
                   \<and> at_end (drop (length d) d)"
      using a by (simp add: at_end_def)
    ultimately show "digits_10_15_match d"
      unfolding digits_10_15_match_def list_ex_iff by blast
  qed
qed

lemma validate_phone_strips:
  "validate_phone (Some s) =
     (strip s = [] \<or>
      (let d = filter (\<lambda>c. \<not> phone_format_char c) s
       in 10 \<le> length d \<and> length d \<le> 15 \<and> list_all is_digit d))"
proof -
  have "list_all (\<lambda>c. \<not> is_space c) (filter (\<lambda>c. \<not> phone_format_char c) s)"
    by (simp add: list_all_iff phone_format_char_def)
  from digits_10_15_match_plain [OF this] show ?thesis
    by (simp add: validate_phone_def Let_def)
qed

text \<open>
  C6 at a phone number written with parentheses.  Once whitespace, parentheses and
  dashes are stripped, \<^verbatim>\<open>(555) 123-4567\<close> is ten digits, so the claim makes it valid;
  the code leaves the parentheses in and rejects it.  The same number without
  parentheses is accepted, and so is a number with a dollar sign, which the class of
  the substitution holds in their place.
\<close>

theorem C6_validate_phone_parentheses:
  "validate_phone (Some ''(555) 123-4567'') = False
   \<and> validate_phone (Some ''555 123-4567'') = True
   \<and> validate_phone (Some ''$5551234567'') = True"
  by code_simp

section \<open>Deduplication and absent keys\<close>

lemma subset_key_single: "(subset_key [c] ir = [NA]) = (row_get c (snd ir) = NA)"
  by (simp add: subset_key_def)

lemma absent_rows_drop_dups:
  "absent_rows c (df\<lparr>rows := drop_dups (subset_key [c]) [] (rows df)\<rparr>)
     = take 1 (absent_rows c df)"
  using drop_dups_filter_key [of "subset_key [c]" "[NA]" "[]" "rows df"]
  by (simp add: absent_rows_def subset_key_single)

lemma deduplicate_absent:
  assumes "c \<in> set (columns df)"
  shows "\<exists>df' T'. deduplicate T df [c] KeepFirst = Inr (df', T')
           \<and> columns df' = columns df
           \<and> absent_rows c df' = take 1 (absent_rows c df)"
proof -
  define T' where "T' = T\<lparr>transformation_log := transformation_log T
      @ dedup_log (length (rows df) - length (drop_dups (subset_key [c]) [] (rows df)))\<rparr>"
  have d: "deduplicate T df [c] KeepFirst
          = Inr (df\<lparr>rows := drop_dups (subset_key [c]) [] (rows df)\<rparr>, T')"
    unfolding T'_def by (rule deduplicate_first [OF assms])
  show ?thesis
    by (intro exI [of _ "df\<lparr>rows := drop_dups (subset_key [c]) [] (rows df)\<rparr>"]
        exI [of _ T'] conjI d absent_rows_drop_dups) simp
qed

lemma filter_via_pairs:
  "map fst (filter (\<lambda>p. P (snd p)) (map (\<lambda>x. (f x, g x)) xs))
     = map f (filter (\<lambda>x. P (g x)) xs)"
  by (induction xs) simp_all

lemma absent_email_before_dedup:
  assumes "''email'' \<in> set (columns df)"
  shows "map fst (absent_rows ''email'' (fst (before_dedup L df)))
         = map fst (filter (\<lambda>ir. normalize_email (email (snd ir)) = None) (rows df))"
proof -
  have pairs: "map (\<lambda>ir. (fst ir, email (snd ir))) (rows (fst (before_dedup L df)))
               = map (\<lambda>ir. (fst ir, normalize_email (email (snd ir)))) (rows df)"
    by (rule map_pair_eq) (rule before_dedup_fst, rule before_dedup_email [OF assms])
  have "map fst (absent_rows ''email'' (fst (before_dedup L df)))
        = map fst (filter (\<lambda>ir. email (snd ir) = None) (rows (fst (before_dedup L df))))"
    by (simp add: absent_rows_def row_get_def text_cell_def split: option.splits)
  also have "\<dots> = map fst (filter (\<lambda>p. snd p = None)
                        (map (\<lambda>ir. (fst ir, email (snd ir))) (rows (fst (before_dedup L df)))))"
    by (simp only: filter_via_pairs [where P = "\<lambda>v. v = None"])
  also have "\<dots> = map fst (filter (\<lambda>ir. normalize_email (email (snd ir)) = None) (rows df))"
    by (simp only: pairs filter_via_pairs [where P = "\<lambda>v. v = None"])
  finally show ?thesis .
qed

lemma absent_code_before_dedup:
  "map fst (absent_rows ''student_code'' (fst (before_dedup L df)))
     = map fst (absent_rows ''student_code'' df)"
proof -
  have pairs: "map (\<lambda>ir. (fst ir, student_code (snd ir))) (rows (fst (before_dedup L df)))
               = map (\<lambda>ir. (fst ir, student_code (snd ir))) (rows df)"
    by (rule map_pair_eq) (rule before_dedup_fst, rule before_dedup_code)
  have a: "\<And>d. map fst (absent_rows ''student_code'' d)
        = map fst (filter (\<lambda>p. snd p = None)
                        (map (\<lambda>ir. (fst ir, student_code (snd ir))) (rows d)))"
    by (simp add: absent_rows_def row_get_def text_cell_def
        filter_via_pairs [where P = "\<lambda>v. v = None"] split: option.splits)
  show ?thesis by (simp only: a pairs)
qed

text \<open>
  C10 (as amended).  Rows whose deduplication key is absent are duplicates of each
  other.  For a table with an email and a student-code column, each of the two calls of
  \<^verbatim>\<open>deduplicate\<close> in step 7 returns, and keeps, of the rows of the table it is given
  whose key is absent, exactly the first.  For the email this is the first row of the
  input table whose email is absent after normalisation; for the student code it is
  the first row without a code of the table that the email deduplication left, whose
  rows without a code are rows without a code of the input.
\<close>

theorem C10_absent_keys_collapse:
  assumes "''email'' \<in> set (columns df)" and "''student_code'' \<in> set (columns df)"
  shows "\<exists>dfe Te df7 T7.
      deduplicate (snd (before_dedup L df)) (fst (before_dedup L df)) [''email''] KeepFirst
        = Inr (dfe, Te)
    \<and> deduplicate Te dfe [''student_code''] KeepFirst = Inr (df7, T7)
    \<and> dedup_stage L df = Inr (df7, T7)
    \<and> absent_rows ''email'' dfe = take 1 (absent_rows ''email'' (fst (before_dedup L df)))
    \<and> map fst (absent_rows ''email'' dfe)
        = take 1 (map fst (filter (\<lambda>ir. normalize_email (email (snd ir)) = None) (rows df)))
    \<and> absent_rows ''student_code'' df7 = take 1 (absent_rows ''student_code'' dfe)
    \<and> map fst (absent_rows ''student_code'' (fst (before_dedup L df)))
        = map fst (absent_rows ''student_code'' df)"
proof -
  let ?df6 = "fst (before_dedup L df)" and ?T6 = "snd (before_dedup L df)"
  have c6: "''email'' \<in> set (columns ?df6)" "''student_code'' \<in> set (columns ?df6)"
    using assms by (simp_all add: before_dedup_columns)
  from deduplicate_absent [OF c6(1), of ?T6] obtain dfe Te where
    e: "deduplicate ?T6 ?df6 [''email''] KeepFirst = Inr (dfe, Te)"
    and ce: "columns dfe = columns ?df6"
    and ae: "absent_rows ''email'' dfe = take 1 (absent_rows ''email'' ?df6)"
    by blast
  have "''student_code'' \<in> set (columns dfe)" using ce c6(2) by simp
  from deduplicate_absent [OF this, of Te] obtain df7 T7 where
    s: "deduplicate Te dfe [''student_code''] KeepFirst = Inr (df7, T7)"
    and as: "absent_rows ''student_code'' df7 = take 1 (absent_rows ''student_code'' dfe)"
    by blast
  have st: "dedup_stage L df = Inr (df7, T7)"
    using e s c6 ce by (simp add: dedup_stage_def step7_dedup_def case_prod_unfold)
  have me: "map fst (absent_rows ''email'' dfe)
        = take 1 (map fst (filter (\<lambda>ir. normalize_email (email (snd ir)) = None) (rows df)))"
  proof -
    have "map fst (absent_rows ''email'' dfe) = take 1 (map fst (absent_rows ''email'' ?df6))"
      by (simp only: ae take_map)
    then show ?thesis by (simp only: absent_email_before_dedup [OF assms(1)])
  qed
  show ?thesis
    by (intro exI [of _ dfe] exI [of _ Te] exI [of _ df7] exI [of _ T7] conjI e s st ae me as
        absent_code_before_dedup)
qed

text \<open>
  C10 as stated fails for the student code.  Of three students the second and the third
  have no code, and the second shares the email of the first: the email deduplication
  removes the second, and the row without a code that survives is the third, not the
  first such row of the input table.
\<close>

theorem C10_first_absent_code_counterexample:
  "map fst (absent_rows ''student_code'' codes_table) = [1, 2]
   \<and> map fst (rows (fst (projr (dedup_stage plain_lib codes_table)))) = [0, 2]
   \<and> map fst (absent_rows ''student_code'' (fst (projr (dedup_stage plain_lib codes_table))))
       = [2]
   \<and> map fst (absent_rows ''student_code'' (fst (projr (dedup_stage plain_lib codes_table))))
       \<noteq> take 1 (map fst (absent_rows ''student_code'' codes_table))"
  by code_simp

text \<open>
  The amended C10 at the table of five students.  The emails of the rows 0, 1 and 4 are
  absent after normalisation, and the email deduplication keeps row 0 of them; of the
  rows 0, 2 and 3 that it leaves, 2 and 3 have no student code, and the student-code
  deduplication keeps row 2 of them.  The rows 1, 3 and 4 are distinct records that are
  lost.
\<close>

theorem C10_absent_keys_collapse_witness:
  "''email'' \<in> set (columns absent_keys_table)
   \<and> ''student_code'' \<in> set (columns absent_keys_table)
   \<and> map fst (filter (\<lambda>ir. normalize_email (email (snd ir)) = None) (rows absent_keys_table))
       = [0, 1, 4]
   \<and> (\<exists>dfe Te df7 T7.
      deduplicate (snd (before_dedup plain_lib absent_keys_table))
        (fst (before_dedup plain_lib absent_keys_table)) [''email''] KeepFirst = Inr (dfe, Te)
    \<and> deduplicate Te dfe [''student_code''] KeepFirst = Inr (df7, T7)
    \<and> dedup_stage plain_lib absent_keys_table = Inr (df7, T7)
    \<and> map fst (rows dfe) = [0, 2, 3]
    \<and> map fst (absent_rows ''email'' dfe) = [0]
    \<and> map fst (absent_rows ''student_code'' dfe) = [2, 3]
    \<and> map fst (absent_rows ''student_code'' df7) = [2]
    \<and> map fst (rows df7) = [0, 2])"
proof -
  have em: "''email'' \<in> set (columns absent_keys_table)" by code_simp
  have sc: "''student_code'' \<in> set (columns absent_keys_table)" by code_simp
  have ae: "map fst (filter (\<lambda>ir. normalize_email (email (snd ir)) = None)
                       (rows absent_keys_table)) = [0, 1, 4]"
    by code_simp
  let ?E = "deduplicate (snd (before_dedup plain_lib absent_keys_table))
        (fst (before_dedup plain_lib absent_keys_table)) [''email''] KeepFirst"
  have re: "map fst (rows (fst (projr ?E))) = [0, 2, 3]" by code_simp
  have ce: "map fst (absent_rows ''student_code'' (fst (projr ?E))) = [2, 3]" by code_simp
  have r7: "map fst (rows (fst (projr (dedup_stage plain_lib absent_keys_table)))) = [0, 2]"
    by code_simp
  from C10_absent_keys_collapse [OF em sc, of plain_lib] show ?thesis
  proof (elim exE conjE, goal_cases)
    case (1 dfe Te df7 T7)
    have dfe: "dfe = fst (projr ?E)" using 1(1) by simp
    have df7: "df7 = fst (projr (dedup_stage plain_lib absent_keys_table))" using 1(3) by simp
    have a: "map fst (rows dfe) = [0, 2, 3]" unfolding dfe by (rule re)
    have b: "map fst (absent_rows ''email'' dfe) = [0]" using 1(5) by (simp only: ae) simp
    have c: "map fst (absent_rows ''student_code'' dfe) = [2, 3]" unfolding dfe by (rule ce)
    have "map fst (absent_rows ''student_code'' df7)
            = take 1 (map fst (absent_rows ''student_code'' dfe))"
      by (simp only: 1(6) take_map)
    then have d: "map fst (absent_rows ''student_code'' df7) = [2]" by (simp only: c) simp
    have e: "map fst (rows df7) = [0, 2]" unfolding df7 by (rule r7)
    show ?case
      by (intro conjI em sc ae exI [of _ dfe] exI [of _ Te] exI [of _ df7] exI [of _ T7]
          1(1) 1(2) 1(3) a b c d e)
  qed
qed

section \<open>Properties of the upserts\<close>

lemma update_set_keys:
  "st_id (update_set d dep t s) = st_id s" "st_email (update_set d dep t s) = st_email s"
  "st_code (update_set d dep t s) = st_code s" "st_status (update_set d dep t s) = st_status s"
  by (simp_all add: update_set_def)

lemma map_update_keys:
  "map (\<lambda>s. (st_id s, st_email s, st_code s))
     (map (\<lambda>s. if st_id s = i then update_set d dep t s else s) xs)
   = map (\<lambda>s. (st_id s, st_email s, st_code s)) xs"
  by (induction xs) (simp_all add: update_set_keys)

lemma department_lookup_isna: "isna v \<Longrightarrow> department_lookup d v = None"
  by (auto simp: isna_def department_lookup_def)

lemma get_department_id_ok:
  assumes "\<not> aborted c" and "\<forall>v. adaptable S v"
  shows "get_department_id S c v = Inr (department_lookup (session c) v)"
  using assms
  by (simp add: get_department_id_def exec_guard_def department_lookup_isna)

lemma upsert_student_matched:
  assumes "find_student (session c) (dget d ''email'') (dget d ''student_code'') = Some existing"
  shows "snd (upsert_student S c d) = c
       \<or> snd (upsert_student S c d) = c\<lparr>aborted := True\<rparr>
       \<or> (\<exists>dep. upsert_student S c d =
            ((True, Some (st_id existing), ''updated''),
             c\<lparr>session := (session c)\<lparr>students :=
                  map (\<lambda>s. if st_id s = st_id existing
                            then update_set d dep (now c) s else s)
                    (students (session c))\<rparr>\<rparr>))"
  using assms
  by (auto simp: upsert_student_def Let_def split: sum.splits option.splits)

text \<open>
  C9.  When the \<^verbatim>\<open>SELECT\<close> of \<^verbatim>\<open>upsert_student\<close> finds an existing row, every row of
  the students table has the same id, email and student code after the call as before
  it, whatever email and student code the record brings; and when nothing raises, the
  call is the update of the matched row and returns \<open>(True, id, "updated")\<close>.
\<close>

theorem C9_update_keeps_keys:
  assumes "find_student (session c) (dget d ''email'') (dget d ''student_code'') = Some existing"
  shows "map (\<lambda>s. (st_id s, st_email s, st_code s)) (students (session (snd (upsert_student S c d))))
         = map (\<lambda>s. (st_id s, st_email s, st_code s)) (students (session c))
       \<and> (\<not> aborted c \<and> (\<forall>v. adaptable S v)
            \<and> student_check S (session c)
                 (update_set d (department_lookup (session c) (dget d ''department_code''))
                    (now c) existing) = None
          \<longrightarrow> fst (upsert_student S c d) = (True, Some (st_id existing), ''updated''))"
proof
  from upsert_student_matched [OF assms, of S]
  show "map (\<lambda>s. (st_id s, st_email s, st_code s)) (students (session (snd (upsert_student S c d))))
         = map (\<lambda>s. (st_id s, st_email s, st_code s)) (students (session c))"
  proof (elim disjE exE)
    assume "snd (upsert_student S c d) = c" then show ?thesis by simp
  next
    assume "snd (upsert_student S c d) = c\<lparr>aborted := True\<rparr>" then show ?thesis by simp
  next
    fix dep
    assume "upsert_student S c d =
            ((True, Some (st_id existing), ''updated''),
             c\<lparr>session := (session c)\<lparr>students :=
                  map (\<lambda>s. if st_id s = st_id existing
                            then update_set d dep (now c) s else s)
                    (students (session c))\<rparr>\<rparr>)"
    then show ?thesis by (simp add: map_update_keys update_set_keys)
  qed
next
  show "\<not> aborted c \<and> (\<forall>v. adaptable S v)
            \<and> student_check S (session c)
                 (update_set d (department_lookup (session c) (dget d ''department_code''))
                    (now c) existing) = None
          \<longrightarrow> fst (upsert_student S c d) = (True, Some (st_id existing), ''updated'')"
  proof (intro impI, elim conjE)
    assume a: "\<not> aborted c" "\<forall>v. adaptable S v"
      and k: "student_check S (session c)
                 (update_set d (department_lookup (session c) (dget d ''department_code''))
                    (now c) existing) = None"
    show "fst (upsert_student S c d) = (True, Some (st_id existing), ''updated'')"
      using assms a k
      by (simp add: upsert_student_def get_department_id_ok [OF a] exec_guard_def Let_def
          list_all_iff)
  qed
qed

text \<open>
  C9 at a record that matches the stored student on the student code and brings
  another email.
\<close>

theorem C9_update_keeps_keys_witness:
  "find_student (session (connect campus)) (dget ann_again ''email'')
     (dget ann_again ''student_code'') = Some ann
   \<and> dget ann_again ''email'' = Str ''new@x.com''
   \<and> \<not> aborted (connect campus) \<and> (\<forall>v. adaptable lenient v)
   \<and> map (\<lambda>s. (st_id s, st_email s, st_code s))
        (students (session (snd (upsert_student lenient (connect campus) ann_again))))
       = [(1, Str ''ann@x.com'', Str ''S1'')]
   \<and> fst (upsert_student lenient (connect campus) ann_again) = (True, Some 1, ''updated'')"
proof -
  have f: "find_student (session (connect campus)) (dget ann_again ''email'')
     (dget ann_again ''student_code'') = Some ann"
    by code_simp
  have e: "dget ann_again ''email'' = Str ''new@x.com''" by code_simp
  have a: "\<not> aborted (connect campus)" by (simp add: connect_def)
  have v: "\<forall>v. adaptable lenient v" by (simp add: lenient_def)
  have k: "student_check lenient (session (connect campus))
             (update_set ann_again
                (department_lookup (session (connect campus)) (dget ann_again ''department_code''))
                (now (connect campus)) ann) = None"
    by (simp add: lenient_def)
  have old: "map (\<lambda>s. (st_id s, st_email s, st_code s)) (students (session (connect campus)))
             = [(1, Str ''ann@x.com'', Str ''S1'')]"
    by code_simp
  have i: "st_id ann = 1" by (simp add: ann_def)
  from C9_update_keeps_keys [OF f, of lenient] a v k old i show ?thesis
    by (intro conjI f e a v) simp_all
qed

lemma update_set_fields:
  "st_first_name (update_set d dep t s) = coalesce (dget d ''first_name'') (st_first_name s)"
  "st_last_name (update_set d dep t s) = coalesce (dget d ''last_name'') (st_last_name s)"
  "st_date_of_birth (update_set d dep t s)
     = coalesce (dget d ''date_of_birth'') (st_date_of_birth s)"
  "st_gender (update_set d dep t s) = coalesce (dget d ''gender'') (st_gender s)"
  "st_phone (update_set d dep t s) = coalesce (dget d ''phone'') (st_phone s)"
  "st_department_id (update_set d dep t s) = coalesce_id dep (st_department_id s)"
  "st_graduation_year (update_set d dep t s)
     = coalesce (dget d ''graduation_year'') (st_graduation_year s)"
  "st_gpa (update_set d dep t s) = coalesce (dget d ''gpa'') (st_gpa s)"
  "st_updated_at (update_set d dep t s) = Stamp t"
  by (simp_all add: update_set_def)

lemma upsert_student_update:
  assumes "find_student (session c) (dget d ''email'') (dget d ''student_code'') = Some existing"
    and "\<not> aborted c" and "\<forall>v. adaptable S v"
    and "student_check S (session c)
           (update_set d (department_lookup (session c) (dget d ''department_code''))
              (now c) existing) = None"
  shows "upsert_student S c d =
           ((True, Some (st_id existing), ''updated''),
            c\<lparr>session := (session c)\<lparr>students :=
                 map (\<lambda>s. if st_id s = st_id existing
                           then update_set d
                                  (department_lookup (session c) (dget d ''department_code''))
                                  (now c) s
                           else s)
                   (students (session c))\<rparr>\<rparr>)"
  using assms
  by (simp add: upsert_student_def get_department_id_ok [OF assms(2,3)] exec_guard_def Let_def
      list_all_iff)

lemma upsert_course_conflict:
  assumes "d ''department_code'' = Some dc" and "department_lookup (session c) dc = Some dept"
    and "d ''course_code'' = Some cc" and "d ''course_name'' = Some cn"
    and "d ''credits'' = Some cr"
    and "find (\<lambda>x. sql_eq (c_code x) cc) (courses (session c)) = Some old"
    and "\<not> aborted c" and "\<forall>v. adaptable S v"
    and "course_check S (session c)
           (conflict_set cn cr (case d ''max_enrollment'' of None \<Rightarrow> Num (Fin 30) | Some v \<Rightarrow> v)
              (now c) old) = None"
  shows "upsert_course S c d =
           ((True, ''upserted''),
            c\<lparr>course_seq := course_seq c + 1,
              session := (session c)\<lparr>courses :=
                 map (\<lambda>x. if c_id x = c_id old
                           then conflict_set cn cr
                                  (case d ''max_enrollment'' of None \<Rightarrow> Num (Fin 30)
                                   | Some v \<Rightarrow> v) (now c) x
                           else x)
                   (courses (session c))\<rparr>\<rparr>)"
  using assms
  by (simp add: upsert_course_def exec_guard_def Let_def list_all_iff)

text \<open>
  The two updates.  When \<^verbatim>\<open>upsert_student\<close> finds an existing row and nothing raises, it
  returns \<open>(True, id, "updated")\<close> and the rows with the id of the matched row get the
  \<^verbatim>\<open>SET\<close> clause: each of first name, last name, date of birth, gender, phone, graduation
  year and GPA is the provided value when that is not \<^verbatim>\<open>None\<close> and the stored value
  otherwise, the department is the one looked up when there is one and the stored one
  otherwise, and the update time is set.  When \<^verbatim>\<open>upsert_course\<close> finds a course with the code of
  the record and nothing raises, it returns \<open>(True, "upserted")\<close> and that course gets
  the provided name, credits and capacity, absent or not, and the update time.
\<close>

lemma upsert_update_semantics:
  "(find_student (session c) (dget d ''email'') (dget d ''student_code'') = Some existing
      \<and> \<not> aborted c \<and> (\<forall>v. adaptable S v)
      \<and> student_check S (session c)
           (update_set d (department_lookup (session c) (dget d ''department_code''))
              (now c) existing) = None
    \<longrightarrow> fst (upsert_student S c d) = (True, Some (st_id existing), ''updated'')
      \<and> students (session (snd (upsert_student S c d)))
          = map (\<lambda>s. if st_id s = st_id existing
                      then update_set d
                             (department_lookup (session c) (dget d ''department_code''))
                             (now c) s
                      else s)
              (students (session c)))
   \<and> st_first_name (update_set d dep t s)
       = (if dget d ''first_name'' \<noteq> NA then dget d ''first_name'' else st_first_name s)
   \<and> st_last_name (update_set d dep t s)
       = (if dget d ''last_name'' \<noteq> NA then dget d ''last_name'' else st_last_name s)
   \<and> st_date_of_birth (update_set d dep t s)
       = (if dget d ''date_of_birth'' \<noteq> NA then dget d ''date_of_birth''
          else st_date_of_birth s)
   \<and> st_gender (update_set d dep t s)
       = (if dget d ''gender'' \<noteq> NA then dget d ''gender'' else st_gender s)
   \<and> st_phone (update_set d dep t s)
       = (if dget d ''phone'' \<noteq> NA then dget d ''phone'' else st_phone s)
   \<and> st_department_id (update_set d dep t s)
       = (if dep \<noteq> None then dep else st_department_id s)
   \<and> st_graduation_year (update_set d dep t s)
       = (if dget d ''graduation_year'' \<noteq> NA then dget d ''graduation_year''
          else st_graduation_year s)
   \<and> st_gpa (update_set d dep t s)
       = (if dget d ''gpa'' \<noteq> NA then dget d ''gpa'' else st_gpa s)
   \<and> st_updated_at (update_set d dep t s) = Stamp t
   \<and> (e ''department_code'' = Some dc \<and> department_lookup (session c) dc = Some dept
      \<and> e ''course_code'' = Some cc \<and> e ''course_name'' = Some cn \<and> e ''credits'' = Some cr
      \<and> find (\<lambda>x. sql_eq (c_code x) cc) (courses (session c)) = Some old
      \<and> \<not> aborted c \<and> (\<forall>v. adaptable S v)
      \<and> course_check S (session c)
           (conflict_set cn cr (case e ''max_enrollment'' of None \<Rightarrow> Num (Fin 30) | Some v \<Rightarrow> v)
              (now c) old) = None
    \<longrightarrow> fst (upsert_course S c e) = (True, ''upserted'')
      \<and> courses (session (snd (upsert_course S c e)))
          = map (\<lambda>x. if c_id x = c_id old
                      then conflict_set cn cr
                             (case e ''max_enrollment'' of None \<Rightarrow> Num (Fin 30) | Some v \<Rightarrow> v)
                             (now c) x
                      else x)
              (courses (session c)))
   \<and> c_name (conflict_set cn cr me t x) = cn
   \<and> c_credits (conflict_set cn cr me t x) = cr
   \<and> c_max_enrollment (conflict_set cn cr me t x) = me
   \<and> c_updated_at (conflict_set cn cr me t x) = Stamp t"
proof -
  have student:
    "find_student (session c) (dget d ''email'') (dget d ''student_code'') = Some existing
      \<and> \<not> aborted c \<and> (\<forall>v. adaptable S v)
      \<and> student_check S (session c)
           (update_set d (department_lookup (session c) (dget d ''department_code''))
              (now c) existing) = None
    \<longrightarrow> fst (upsert_student S c d) = (True, Some (st_id existing), ''updated'')
      \<and> students (session (snd (upsert_student S c d)))
          = map (\<lambda>s. if st_id s = st_id existing
                      then update_set d
                             (department_lookup (session c) (dget d ''department_code''))
                             (now c) s
                      else s)
              (students (session c))"
  proof (intro impI, elim conjE)
    assume "find_student (session c) (dget d ''email'') (dget d ''student_code'') = Some existing"
      "\<not> aborted c" "\<forall>v. adaptable S v"
      "student_check S (session c)
           (update_set d (department_lookup (session c) (dget d ''department_code''))
              (now c) existing) = None"
    from upsert_student_update [OF this] show
      "fst (upsert_student S c d) = (True, Some (st_id existing), ''updated'')
      \<and> students (session (snd (upsert_student S c d)))
          = map (\<lambda>s. if st_id s = st_id existing
                      then update_set d
                             (department_lookup (session c) (dget d ''department_code''))
                             (now c) s
                      else s)
              (students (session c))"
      by simp
  qed
  have course:
    "e ''department_code'' = Some dc \<and> department_lookup (session c) dc = Some dept
      \<and> e ''course_code'' = Some cc \<and> e ''course_name'' = Some cn \<and> e ''credits'' = Some cr
      \<and> find (\<lambda>x. sql_eq (c_code x) cc) (courses (session c)) = Some old
      \<and> \<not> aborted c \<and> (\<forall>v. adaptable S v)
      \<and> course_check S (session c)
           (conflict_set cn cr (case e ''max_enrollment'' of None \<Rightarrow> Num (Fin 30) | Some v \<Rightarrow> v)
              (now c) old) = None
    \<longrightarrow> fst (upsert_course S c e) = (True, ''upserted'')
      \<and> courses (session (snd (upsert_course S c e)))
          = map (\<lambda>x. if c_id x = c_id old
                      then conflict_set cn cr
                             (case e ''max_enrollment'' of None \<Rightarrow> Num (Fin 30) | Some v \<Rightarrow> v)
                             (now c) x
                      else x)
              (courses (session c))"
  proof (intro impI, elim conjE)
    assume "e ''department_code'' = Some dc" "department_lookup (session c) dc = Some dept"
      "e ''course_code'' = Some cc" "e ''course_name'' = Some cn" "e ''credits'' = Some cr"
      "find (\<lambda>x. sql_eq (c_code x) cc) (courses (session c)) = Some old"
      "\<not> aborted c" "\<forall>v. adaptable S v"
      "course_check S (session c)
           (conflict_set cn cr (case e ''max_enrollment'' of None \<Rightarrow> Num (Fin 30) | Some v \<Rightarrow> v)
              (now c) old) = None"
    from upsert_course_conflict [OF this] show
      "fst (upsert_course S c e) = (True, ''upserted'')
      \<and> courses (session (snd (upsert_course S c e)))
          = map (\<lambda>x. if c_id x = c_id old
                      then conflict_set cn cr
                             (case e ''max_enrollment'' of None \<Rightarrow> Num (Fin 30) | Some v \<Rightarrow> v)
                             (now c) x
                      else x)
              (courses (session c))"
      by simp
  qed
  show ?thesis
    by (intro conjI student course)
       (simp_all add: update_set_fields coalesce_def coalesce_id_def conflict_set_def
          split: option.splits)
qed

text \<open>
  The two updates at the stored student, with a record that brings a first name and
  \<^verbatim>\<open>None\<close> for the last name, and at the stored course, with a record whose capacity is
  \<^verbatim>\<open>None\<close>.
\<close>

lemma upsert_update_semantics_example:
  "find_student (session (connect campus)) (dget ann_again ''email'')
     (dget ann_again ''student_code'') = Some ann
   \<and> \<not> aborted (connect campus) \<and> (\<forall>v. adaptable lenient v)
   \<and> dget ann_again ''first_name'' = Str ''Anna'' \<and> dget ann_again ''last_name'' = NA
   \<and> fst (upsert_student lenient (connect campus) ann_again) = (True, Some 1, ''updated'')
   \<and> map (\<lambda>s. (st_first_name s, st_last_name s, st_updated_at s))
        (students (session (snd (upsert_student lenient (connect campus) ann_again))))
       = [(Str ''Anna'', Str ''Lee'', Stamp 7)]
   \<and> algebra_again ''max_enrollment'' = Some NA
   \<and> find (\<lambda>x. sql_eq (c_code x) (Str ''MATH101'')) (courses (session (connect campus)))
       = Some algebra
   \<and> fst (upsert_course lenient (connect campus) algebra_again) = (True, ''upserted'')
   \<and> map (\<lambda>x. (c_name x, c_credits x, c_max_enrollment x, c_updated_at x))
        (courses (session (snd (upsert_course lenient (connect campus) algebra_again))))
       = [(Str ''Linear Algebra'', Num (Fin 4), NA, Stamp 7)]"
proof -
  have f: "find_student (session (connect campus)) (dget ann_again ''email'')
     (dget ann_again ''student_code'') = Some ann"
    by code_simp
  have a: "\<not> aborted (connect campus)" by (simp add: connect_def)
  have v: "\<forall>v. adaptable lenient v" by (simp add: lenient_def)
  have k: "student_check lenient (session (connect campus))
             (update_set ann_again
                (department_lookup (session (connect campus)) (dget ann_again ''department_code''))
                (now (connect campus)) ann) = None"
    by (simp add: lenient_def)
  have fn: "dget ann_again ''first_name'' = Str ''Anna''" by code_simp
  have ln: "dget ann_again ''last_name'' = NA" by code_simp
  have i: "st_id ann = 1" by (simp add: ann_def)
  have rows: "map (\<lambda>s. (st_first_name s, st_last_name s, st_updated_at s))
       (map (\<lambda>s. if st_id s = st_id ann
                  then update_set ann_again
                         (department_lookup (session (connect campus))
                            (dget ann_again ''department_code''))
                         (now (connect campus)) s
                  else s)
          (students (session (connect campus))))
       = [(Str ''Anna'', Str ''Lee'', Stamp 7)]"
    by code_simp
  have dc: "algebra_again ''department_code'' = Some (Str ''CS'')" by code_simp
  have dl: "department_lookup (session (connect campus)) (Str ''CS'') = Some 10" by code_simp
  have cc: "algebra_again ''course_code'' = Some (Str ''MATH101'')" by code_simp
  have cn: "algebra_again ''course_name'' = Some (Str ''Linear Algebra'')" by code_simp
  have cr: "algebra_again ''credits'' = Some (Num (Fin 4))" by code_simp
  have me: "algebra_again ''max_enrollment'' = Some NA" by code_simp
  have fc: "find (\<lambda>x. sql_eq (c_code x) (Str ''MATH101'')) (courses (session (connect campus)))
       = Some algebra"
    by code_simp
  have kc: "course_check lenient (session (connect campus))
           (conflict_set (Str ''Linear Algebra'') (Num (Fin 4))
              (case algebra_again ''max_enrollment'' of None \<Rightarrow> Num (Fin 30) | Some v \<Rightarrow> v)
              (now (connect campus)) algebra) = None"
    by (simp add: lenient_def)
  have crows: "map (\<lambda>x. (c_name x, c_credits x, c_max_enrollment x, c_updated_at x))
       (map (\<lambda>x. if c_id x = c_id algebra
                  then conflict_set (Str ''Linear Algebra'') (Num (Fin 4))
                         (case algebra_again ''max_enrollment'' of None \<Rightarrow> Num (Fin 30)
                          | Some v \<Rightarrow> v) (now (connect campus)) x
                  else x)
          (courses (session (connect campus))))
       = [(Str ''Linear Algebra'', Num (Fin 4), NA, Stamp 7)]"
    by code_simp
  note main = upsert_update_semantics [of "connect campus" ann_again ann lenient None 7 ann
      algebra_again "Str ''CS''" 10 "Str ''MATH101''" "Str ''Linear Algebra''" "Num (Fin 4)"
      algebra NA algebra]
  have st: "fst (upsert_student lenient (connect campus) ann_again) = (True, Some 1, ''updated'')
      \<and> students (session (snd (upsert_student lenient (connect campus) ann_again)))
          = map (\<lambda>s. if st_id s = st_id ann
                      then update_set ann_again
                             (department_lookup (session (connect campus))
                                (dget ann_again ''department_code''))
                             (now (connect campus)) s
                      else s)
              (students (session (connect campus)))"
    using main f a v k i by simp
  have co: "fst (upsert_course lenient (connect campus) algebra_again) = (True, ''upserted'')
      \<and> courses (session (snd (upsert_course lenient (connect campus) algebra_again)))
          = map (\<lambda>x. if c_id x = c_id algebra
                  then conflict_set (Str ''Linear Algebra'') (Num (Fin 4))
                         (case algebra_again ''max_enrollment'' of None \<Rightarrow> Num (Fin 30)
                          | Some v \<Rightarrow> v) (now (connect campus)) x
                  else x)
              (courses (session (connect campus)))"
    using main dc dl cc cn cr fc a v kc by simp
  show ?thesis
    using st co by (intro conjI f a v fn ln me fc) (simp_all only: rows crows)
qed

text \<open>
  C2 fails for a field that is missing in the table.  The raw row for Ann has no GPA.
  The transformer makes the column numeric, which turns the missing value into the
  float NaN, and the dictionary of the cleaned row carries it.  The row matches the
  stored student, whose GPA is 3.5; the driver passes NaN as a value that is not
  \<^verbatim>\<open>NULL\<close>, so \<^verbatim>\<open>COALESCE\<close> takes it: the upsert returns "updated" and the stored GPA is
  NaN, also after the commit of the batch load.
\<close>

theorem C2_missing_gpa_overwrites:
  "map (\<lambda>ir. gpa (snd ir)) (rows ann_raw) = [NA]
   \<and> map (\<lambda>ir. gpa (snd ir)) (rows ann_cleaned) = [Num NaN]
   \<and> dget ann_no_gpa ''gpa'' = Num NaN \<and> isna (dget ann_no_gpa ''gpa'')
   \<and> find_student (session (connect campus)) (dget ann_no_gpa ''email'')
        (dget ann_no_gpa ''student_code'') = Some ann
   \<and> st_gpa ann = Num (Fin 3.5)
   \<and> fst (upsert_student unconstrained (connect campus) ann_no_gpa)
       = (True, Some 1, ''updated'')
   \<and> map st_gpa (students (session (snd (upsert_student unconstrained (connect campus)
                                             ann_no_gpa)))) = [Num NaN]
   \<and> stats_of (load_students_batch unconstrained (connect campus) ann_cleaned 100)
       = \<lparr>total = 1, inserted = 0, updated = 1, failed = 0, errors = []\<rparr>
   \<and> map st_gpa (students (durable (connection_of
         (load_students_batch unconstrained (connect campus) ann_cleaned 100)))) = [Num NaN]"
  by code_simp

section \<open>Properties of the batch load\<close>

text \<open>
  C5 fails at a table whose index labels have gaps.  Of five raw students with the labels
  0 to 4, the transformer drops the two with unparseable emails and returns the rows
  with the labels 0, 2 and 4, which it does not renumber.  The loader tests
  \<^verbatim>\<open>(idx + 1) % batch_size == 0\<close> on the label, not on the number of records processed.
  Loaded with a batch size of 2, no label passes the test: the only commit is the one at
  the end, and after the third record three records are processed and uncommitted, more
  than one batch.
\<close>

theorem C5_commit_follows_labels:
  "map fst (rows five_students) = [0, 1, 2, 3, 4]
   \<and> map fst (rows cleaned_five) = [0, 2, 4]
   \<and> trace_of (load_students_batch unconstrained (connect empty_db) cleaned_five 2)
       = [Upserted 0 (Str ''s0@x.com'') (True, Some 100, ''inserted''),
          Upserted 2 (Str ''s2@x.com'') (True, Some 101, ''inserted''),
          Upserted 4 (Str ''s4@x.com'') (True, Some 102, ''inserted''),
          Committed]
   \<and> uncommitted (take 3 (trace_of (load_students_batch unconstrained
                                      (connect empty_db) cleaned_five 2))) = 3
   \<and> \<not> int (uncommitted (take 3 (trace_of (load_students_batch unconstrained
                                             (connect empty_db) cleaned_five 2)))) \<le> 2"
  by code_simp

lemma results_append: "results (a @ b) = results a @ results b"
  by (induction a rule: results.induct) simp_all

lemma load_loop_Cons:
  "batch_size \<noteq> 0 \<Longrightarrow>
   load_loop S cols batch_size st (ir # rest)
     = load_loop S cols batch_size (loop_body S cols batch_size st ir) rest"
  by (cases st; cases ir)
     (simp add: loop_body_def count_result_def Let_def case_prod_unfold)

lemma load_loop_foldl:
  "batch_size \<noteq> 0 \<Longrightarrow>
   load_loop S cols batch_size st xs = Inr (foldl (loop_body S cols batch_size) st xs)"
proof (induction xs arbitrary: st)
  case Nil
  then show ?case by simp
next
  case (Cons ir rest)
  show ?case using Cons.IH [OF Cons.prems]
    by (simp only: load_loop_Cons [OF Cons.prems] foldl_Cons)
qed

text \<open>One pass, by components.\<close>

lemma loop_body_trace:
  "snd (snd (loop_body S cols bs (stats, c, tr) ir))
     = tr @ [Upserted (fst ir) (dget (to_dict cols (snd ir)) ''email'')
               (fst (upsert_student S c (to_dict cols (snd ir))))]
          @ (if (fst ir + 1) mod bs = 0 then [Committed] else [])"
  by (simp add: loop_body_def Let_def)

lemma loop_body_stats:
  "fst (loop_body S cols bs (stats, c, tr) ir)
     = count_result stats (fst ir) (dget (to_dict cols (snd ir)) ''email'')
         (fst (upsert_student S c (to_dict cols (snd ir))))"
  by (simp add: loop_body_def Let_def)

lemma loop_body_conn:
  "fst (snd (loop_body S cols bs (stats, c, tr) ir))
     = (if (fst ir + 1) mod bs = 0 then commit (snd (upsert_student S c (to_dict cols (snd ir))))
        else snd (upsert_student S c (to_dict cols (snd ir))))"
  by (simp add: loop_body_def Let_def)

lemma count_result_fields:
  "total (count_result stats idx e r) = total stats"
  "inserted (count_result stats idx e r)
     = inserted stats + (if succeeded (idx, e, r) \<and> returned_message (idx, e, r) = ''inserted''
                         then 1 else 0)"
  "updated (count_result stats idx e r)
     = updated stats + (if succeeded (idx, e, r) \<and> returned_message (idx, e, r) \<noteq> ''inserted''
                        then 1 else 0)"
  "failed (count_result stats idx e r)
     = failed stats + (if succeeded (idx, e, r) then 0 else 1)"
  "errors (count_result stats idx e r)
     = errors stats @ (if succeeded (idx, e, r) then [] else [load_error_of (idx, e, r)])"
  by (auto simp: count_result_def succeeded_def returned_message_def load_error_of_def
      split: prod.splits)

text \<open>The state after the loop has run over a list of rows, from empty statistics.\<close>

lemma loop_invariant:
  fixes S cols bs c n xs
  defines "st \<equiv> foldl (loop_body S cols bs)
                  (\<lparr>total = n, inserted = 0, updated = 0, failed = 0, errors = []\<rparr>, c, []) xs"
  shows "total (fst st) = n
    \<and> map (\<lambda>x. (fst x, fst (snd x))) (results (snd (snd st)))
        = map (\<lambda>ir. (fst ir, dget (to_dict cols (snd ir)) ''email'')) xs
    \<and> inserted (fst st)
        = length (filter (\<lambda>x. succeeded x \<and> returned_message x = ''inserted'')
                    (results (snd (snd st))))
    \<and> updated (fst st)
        = length (filter (\<lambda>x. succeeded x \<and> returned_message x \<noteq> ''inserted'')
                    (results (snd (snd st))))
    \<and> failed (fst st) = length (filter (\<lambda>x. \<not> succeeded x) (results (snd (snd st))))
    \<and> errors (fst st) = map load_error_of (filter (\<lambda>x. \<not> succeeded x) (results (snd (snd st))))"
  unfolding st_def
proof (induction xs rule: rev_induct)
  case Nil
  show ?case by simp
next
  case (snoc ir xs)
  obtain stats c' tr where st: "foldl (loop_body S cols bs)
      (\<lparr>total = n, inserted = 0, updated = 0, failed = 0, errors = []\<rparr>, c, []) xs
      = (stats, c', tr)"
    by (metis prod_cases3)
  show ?case
    using snoc.IH unfolding st foldl_append foldl_Cons foldl_Nil
    by (simp add: loop_body_stats loop_body_trace count_result_fields results_append
        succeeded_def returned_message_def)
qed

text \<open>What one call of \<^verbatim>\<open>upsert_student\<close> does to the connection.\<close>

lemma find_student_in: "find_student d e k = Some s \<Longrightarrow> s \<in> set (students d)"
  by (auto simp: find_student_def find_Some_iff)

lemma upsert_student_aborted:
  "aborted c \<Longrightarrow> \<not> fst (fst (upsert_student S c d)) \<and> aborted (snd (upsert_student S c d))"
  by (auto simp: upsert_student_def get_department_id_def exec_guard_def Let_def
      split: sum.splits option.splits if_splits)

lemma upsert_student_durable: "durable (snd (upsert_student S c d)) = durable c"
  by (auto simp: upsert_student_def Let_def split: sum.splits option.splits)

lemma upsert_student_cases:
  "(\<not> fst (fst (upsert_student S c d)) \<and> session (snd (upsert_student S c d)) = session c)
   \<or> (\<exists>existing dep.
         find_student (session c) (dget d ''email'') (dget d ''student_code'') = Some existing
       \<and> upsert_student S c d =
            ((True, Some (st_id existing), ''updated''),
             c\<lparr>session := (session c)\<lparr>students :=
                  map (\<lambda>s. if st_id s = st_id existing
                            then update_set d dep (now c) s else s)
                    (students (session c))\<rparr>\<rparr>))
   \<or> (\<exists>dep.
         upsert_student S c d =
            ((True, Some (student_seq c), ''inserted''),
             c\<lparr>student_seq := student_seq c + 1,
               session := (session c)\<lparr>students :=
                  students (session c) @ [insert_row d dep (student_seq c)]\<rparr>\<rparr>))"
  by (auto simp: upsert_student_def Let_def insert_row_def split: sum.splits option.splits)

lemma map_update_ids:
  "map st_id (map (\<lambda>s. if st_id s = i then update_set d dep t s else s) xs) = map st_id xs"
  by (induction xs) (simp_all add: update_set_keys)

lemma upsert_student_success:
  assumes "fst (fst (upsert_student S c d))"
  shows "\<not> aborted (snd (upsert_student S c d))
       \<and> (\<exists>s \<in> set (students (session (snd (upsert_student S c d)))).
             fst (snd (fst (upsert_student S c d))) = Some (st_id s))"
proof -
  have na: "\<not> aborted c" using assms upsert_student_aborted [of c S d] by blast
  from upsert_student_cases [of S c d] show ?thesis
  proof (elim disjE exE conjE)
    assume "\<not> fst (fst (upsert_student S c d))"
    then show ?thesis using assms by simp
  next
    fix existing dep
    assume f: "find_student (session c) (dget d ''email'') (dget d ''student_code'') = Some existing"
      and u: "upsert_student S c d =
            ((True, Some (st_id existing), ''updated''),
             c\<lparr>session := (session c)\<lparr>students :=
                  map (\<lambda>s. if st_id s = st_id existing
                            then update_set d dep (now c) s else s)
                    (students (session c))\<rparr>\<rparr>)"
    define ys where "ys = map (\<lambda>s. if st_id s = st_id existing
                            then update_set d dep (now c) s else s) (students (session c))"
    have "existing \<in> set (students (session c))" using f by (rule find_student_in)
    then have "st_id existing \<in> st_id ` set (students (session c))" by (rule imageI)
    then have "st_id existing \<in> set (map st_id (students (session c)))" by (simp only: set_map)
    then have "st_id existing \<in> set (map st_id ys)"
      unfolding ys_def by (simp only: map_update_ids)
    then have "st_id existing \<in> st_id ` set ys" by (simp only: set_map)
    then obtain s where s: "s \<in> set ys" "st_id existing = st_id s" by (rule imageE)
    have r: "students (session (snd (upsert_student S c d))) = ys"
      "fst (snd (fst (upsert_student S c d))) = Some (st_id existing)"
      "aborted (snd (upsert_student S c d)) = aborted c"
      by (simp_all add: u ys_def)
    show ?thesis unfolding r using na s by auto
  next
    fix dep
    assume u: "upsert_student S c d =
            ((True, Some (student_seq c), ''inserted''),
             c\<lparr>student_seq := student_seq c + 1,
               session := (session c)\<lparr>students :=
                  students (session c) @ [insert_row d dep (student_seq c)]\<rparr>\<rparr>)"
    show ?thesis using na by (simp add: u insert_row_def)
  qed
qed

lemma upsert_student_ids:
  "set (map st_id (students (session c)))
     \<subseteq> set (map st_id (students (session (snd (upsert_student S c d)))))"
  using upsert_student_cases [of S c d]
proof (elim disjE exE conjE)
  assume "session (snd (upsert_student S c d)) = session c"
  then show ?thesis by simp
next
  fix existing dep
  assume u: "upsert_student S c d =
            ((True, Some (st_id existing), ''updated''),
             c\<lparr>session := (session c)\<lparr>students :=
                  map (\<lambda>s. if st_id s = st_id existing
                            then update_set d dep (now c) s else s)
                    (students (session c))\<rparr>\<rparr>)"
  have "students (session (snd (upsert_student S c d)))
          = map (\<lambda>s. if st_id s = st_id existing
                            then update_set d dep (now c) s else s) (students (session c))"
    by (simp add: u)
  then have "map st_id (students (session (snd (upsert_student S c d))))
             = map st_id (students (session c))"
    by (simp only: map_update_ids)
  then show ?thesis by (simp only: subset_refl)
next
  fix dep
  assume u: "upsert_student S c d =
            ((True, Some (student_seq c), ''inserted''),
             c\<lparr>student_seq := student_seq c + 1,
               session := (session c)\<lparr>students :=
                  students (session c) @ [insert_row d dep (student_seq c)]\<rparr>\<rparr>)"
  show ?thesis by (auto simp: u)
qed

text \<open>The loop when no label passes the test for the commit.\<close>

lemma loop_no_commit:
  fixes S cols bs c n xs
  defines "st \<equiv> foldl (loop_body S cols bs)
                  (\<lparr>total = n, inserted = 0, updated = 0, failed = 0, errors = []\<rparr>, c, []) xs"
  assumes nc: "\<forall>ir \<in> set xs. (fst ir + 1) mod bs \<noteq> 0" and na: "\<not> aborted c"
  shows "durable (fst (snd st)) = durable c
    \<and> (aborted (fst (snd st)) \<longrightarrow>
          results (snd (snd st)) \<noteq> [] \<and> \<not> succeeded (last (results (snd (snd st)))))
    \<and> (\<forall>x \<in> set (results (snd (snd st))). succeeded x \<longrightarrow>
          (\<exists>s \<in> set (students (session (fst (snd st)))). returned_id x = Some (st_id s)))"
  using nc unfolding st_def
proof (induction xs rule: rev_induct)
  case Nil
  show ?case using na by simp
next
  case (snoc ir xs)
  obtain stats ck tr where st: "foldl (loop_body S cols bs)
      (\<lparr>total = n, inserted = 0, updated = 0, failed = 0, errors = []\<rparr>, c, []) xs
      = (stats, ck, tr)"
    by (metis prod_cases3)
  have ncx: "\<forall>ir \<in> set xs. (fst ir + 1) mod bs \<noteq> 0" and nci: "(fst ir + 1) mod bs \<noteq> 0"
    using snoc.prems by simp_all
  note ih = snoc.IH [OF ncx, unfolded st fst_conv snd_conv]
  let ?d = "to_dict cols (snd ir)"
  let ?R = "upsert_student S ck ?d"
  let ?x = "(fst ir, dget ?d ''email'', fst ?R)"
  have body: "loop_body S cols bs (stats, ck, tr) ir
              = (count_result stats (fst ir) (dget ?d ''email'') (fst ?R), snd ?R,
                 tr @ [Upserted (fst ir) (dget ?d ''email'') (fst ?R)])"
    using nci by (simp add: loop_body_def Let_def)
  have res: "results (tr @ [Upserted (fst ir) (dget ?d ''email'') (fst ?R)])
             = results tr @ [?x]"
    by (simp add: results_append)
  have k1: "durable (snd ?R) = durable c"
    using ih by (simp add: upsert_student_durable)
  have k3: "aborted (snd ?R) \<longrightarrow> \<not> succeeded ?x"
    using upsert_student_success [of S ck ?d] by (auto simp: succeeded_def)
  have mono: "set (map st_id (students (session ck)))
                \<subseteq> set (map st_id (students (session (snd ?R))))"
    by (rule upsert_student_ids)
  have k4: "\<forall>x \<in> set (results tr @ [?x]). succeeded x \<longrightarrow>
          (\<exists>s \<in> set (students (session (snd ?R))). returned_id x = Some (st_id s))"
  proof (intro ballI impI)
    fix x assume x: "x \<in> set (results tr @ [?x])" and sx: "succeeded x"
    show "\<exists>s \<in> set (students (session (snd ?R))). returned_id x = Some (st_id s)"
    proof (cases "x \<in> set (results tr)")
      case True
      then obtain s where "s \<in> set (students (session ck))" "returned_id x = Some (st_id s)"
        using ih sx by blast
      then have "st_id s \<in> set (map st_id (students (session ck)))" by simp
      then have "st_id s \<in> set (map st_id (students (session (snd ?R))))" using mono by blast
      then obtain s' where "s' \<in> set (students (session (snd ?R)))" "st_id s' = st_id s"
        by auto
      then show ?thesis using \<open>returned_id x = Some (st_id s)\<close>
        by (intro bexI [of _ s']) simp_all
    next
      case False
      then have xe: "x = ?x" using x by simp
      then have "fst (fst ?R)" using sx by (simp add: succeeded_def)
      from upsert_student_success [OF this] show ?thesis
        unfolding xe by (auto simp: returned_id_def)
    qed
  qed
  show ?case
    unfolding foldl_append foldl_Cons foldl_Nil st body fst_conv snd_conv res
    using k1 k3 k4 by simp
qed

text \<open>
  With a batch size that is not zero, \<^verbatim>\<open>load_students_batch\<close> returns whatever the
  upserts do.  \<^verbatim>\<open>upsert_student\<close> is called once for every row of the table, in order:
  a call that fails does not end the loop.  The statistics count the calls: \<open>total\<close> is
  the number of rows, \<open>inserted\<close>, \<open>updated\<close> and \<open>failed\<close> are the numbers of calls that
  returned "inserted", another success, and a failure, and \<open>errors\<close> has, in order, one
  entry with the row label, the email and the message for every call that failed.  When
  no label passes the test for the commit inside the loop, the connection was not in a
  failed transaction and the last call succeeded, the commit at the end makes the
  session durable, and the row of every call that succeeded is committed.
\<close>

lemma load_students_batch_counts:
  assumes "batch_size \<noteq> 0"
  shows "\<exists>stats c' tr.
      load_students_batch S c df batch_size = Inr (stats, c', tr)
    \<and> total stats = length (rows df)
    \<and> map (\<lambda>x. (fst x, fst (snd x))) (results tr)
        = map (\<lambda>ir. (fst ir, dget (to_dict (columns df) (snd ir)) ''email'')) (rows df)
    \<and> inserted stats
        = length (filter (\<lambda>x. succeeded x \<and> returned_message x = ''inserted'') (results tr))
    \<and> updated stats
        = length (filter (\<lambda>x. succeeded x \<and> returned_message x \<noteq> ''inserted'') (results tr))
    \<and> failed stats = length (filter (\<lambda>x. \<not> succeeded x) (results tr))
    \<and> errors stats = map load_error_of (filter (\<lambda>x. \<not> succeeded x) (results tr))
    \<and> ((\<forall>ir \<in> set (rows df). (fst ir + 1) mod batch_size \<noteq> 0) \<and> \<not> aborted c
          \<and> results tr \<noteq> [] \<and> succeeded (last (results tr))
        \<longrightarrow> durable c' = session c'
          \<and> (\<forall>x \<in> set (results tr). succeeded x \<longrightarrow>
                (\<exists>s \<in> set (students (durable c')). returned_id x = Some (st_id s))))"
proof -
  let ?st0 = "(\<lparr>total = length (rows df), inserted = 0, updated = 0, failed = 0, errors = []\<rparr>,
               c, [])"
  obtain stats cn tr where st:
    "foldl (loop_body S (columns df) batch_size) ?st0 (rows df) = (stats, cn, tr)"
    by (metis prod_cases3)
  have l: "load_students_batch S c df batch_size = Inr (stats, commit cn, tr @ [Committed])"
    by (simp add: load_students_batch_def Let_def load_loop_foldl [OF assms] st)
  have r: "results (tr @ [Committed]) = results tr" by (simp add: results_append)
  note inv = loop_invariant [where n = "length (rows df)" and S = S and cols = "columns df"
      and bs = batch_size and c = c and xs = "rows df", unfolded st fst_conv snd_conv]
  have committed:
    "(\<forall>ir \<in> set (rows df). (fst ir + 1) mod batch_size \<noteq> 0) \<and> \<not> aborted c
          \<and> results tr \<noteq> [] \<and> succeeded (last (results tr))
        \<longrightarrow> durable (commit cn) = session (commit cn)
          \<and> (\<forall>x \<in> set (results tr). succeeded x \<longrightarrow>
                (\<exists>s \<in> set (students (durable (commit cn))). returned_id x = Some (st_id s)))"
  proof (intro impI, elim conjE)
    assume nc: "\<forall>ir \<in> set (rows df). (fst ir + 1) mod batch_size \<noteq> 0" and na: "\<not> aborted c"
      and ne: "results tr \<noteq> []" and ok: "succeeded (last (results tr))"
    note k = loop_no_commit [OF nc na, where S = S and cols = "columns df"
        and n = "length (rows df)", unfolded st fst_conv snd_conv]
    have "\<not> aborted cn" using k ne ok by blast
    then have c: "commit cn = cn\<lparr>durable := session cn\<rparr>" by (simp add: commit_def)
    show "durable (commit cn) = session (commit cn)
          \<and> (\<forall>x \<in> set (results tr). succeeded x \<longrightarrow>
                (\<exists>s \<in> set (students (durable (commit cn))). returned_id x = Some (st_id s)))"
      unfolding c using k by simp
  qed
  note i1 = inv [THEN conjunct1]
    and i2 = inv [THEN conjunct2, THEN conjunct1]
    and i3 = inv [THEN conjunct2, THEN conjunct2, THEN conjunct1]
    and i4 = inv [THEN conjunct2, THEN conjunct2, THEN conjunct2, THEN conjunct1]
    and i5 = inv [THEN conjunct2, THEN conjunct2, THEN conjunct2, THEN conjunct2, THEN conjunct1]
    and i6 = inv [THEN conjunct2, THEN conjunct2, THEN conjunct2, THEN conjunct2, THEN conjunct2]
  show ?thesis
    apply (intro exI [of _ stats] exI [of _ "commit cn"] exI [of _ "tr @ [Committed]"] conjI)
    unfolding r
    by (rule l i1 i2 i3 i4 i5 i6 committed)+
qed

text \<open>
  C1 fails for a failure that the database reports.  Ten students with the labels 0 to 9
  are loaded with the default batch size into an empty table whose schema wants a first
  name, which the student with label 5 lacks.  The exception of its \<^verbatim>\<open>INSERT\<close> is caught
  and recorded, and the loop goes on; but the statement has left the transaction of
  the connection failed, \<^verbatim>\<open>upsert_student\<close> does not roll back, and every statement of
  the records 6 to 9 raises in turn.  The statistics are 5 inserted and 5 failed, with
  an entry for each of the rows 5 to 9, and the commit at the end of the block rolls the
  five inserted rows back: no row is committed.  When the failure is one that the driver
  raises before it sends the statement (a graduation year that is \<^verbatim>\<open>pd.NA\<close>), the
  transaction is not touched: 9 are inserted and committed, and one entry names row 5.
\<close>

theorem C1_database_failure_fails_the_rest:
  "map fst (rows ten_students) = [0, 1, 2, 3, 4, 5, 6, 7, 8, 9]
   \<and> map (\<lambda>x. (fst x, succeeded x))
        (results (trace_of (load_students_batch named (connect empty_db) ten_students 100)))
       = [(0, True), (1, True), (2, True), (3, True), (4, True),
          (5, False), (6, False), (7, False), (8, False), (9, False)]
   \<and> total (stats_of (load_students_batch named (connect empty_db) ten_students 100)) = 10
   \<and> inserted (stats_of (load_students_batch named (connect empty_db) ten_students 100)) = 5
   \<and> updated (stats_of (load_students_batch named (connect empty_db) ten_students 100)) = 0
   \<and> failed (stats_of (load_students_batch named (connect empty_db) ten_students 100)) = 5
   \<and> errors (stats_of (load_students_batch named (connect empty_db) ten_students 100))
       = [\<lparr>le_row = 5, le_email = Str ''s5@x.com'', le_error = not_null_msg\<rparr>,
          \<lparr>le_row = 6, le_email = Str ''s6@x.com'', le_error = failed_tx_msg\<rparr>,
          \<lparr>le_row = 7, le_email = Str ''s7@x.com'', le_error = failed_tx_msg\<rparr>,
          \<lparr>le_row = 8, le_email = Str ''s8@x.com'', le_error = failed_tx_msg\<rparr>,
          \<lparr>le_row = 9, le_email = Str ''s9@x.com'', le_error = failed_tx_msg\<rparr>]
   \<and> students (durable (connection_of
         (load_students_batch named (connect empty_db) ten_students 100))) = []
   \<and> map fst (rows ten_students_na) = [0, 1, 2, 3, 4, 5, 6, 7, 8, 9]
   \<and> total (stats_of (load_students_batch unconstrained (connect empty_db)
                         ten_students_na 100)) = 10
   \<and> inserted (stats_of (load_students_batch unconstrained (connect empty_db)
                            ten_students_na 100)) = 9
   \<and> updated (stats_of (load_students_batch unconstrained (connect empty_db)
                           ten_students_na 100)) = 0
   \<and> failed (stats_of (load_students_batch unconstrained (connect empty_db)
                          ten_students_na 100)) = 1
   \<and> errors (stats_of (load_students_batch unconstrained (connect empty_db)
                          ten_students_na 100))
       = [\<lparr>le_row = 5, le_email = Str ''s5@x.com'', le_error = adapt_msg\<rparr>]
   \<and> map st_email (students (durable (connection_of
         (load_students_batch unconstrained (connect empty_db) ten_students_na 100))))
       = [Str ''s0@x.com'', Str ''s1@x.com'', Str ''s2@x.com'', Str ''s3@x.com'',
          Str ''s4@x.com'', Str ''s6@x.com'', Str ''s7@x.com'', Str ''s8@x.com'',
          Str ''s9@x.com'']"
  by code_simp

section \<open>Properties of the pipeline\<close>

lemma phases_started_append:
  "phases_started (a @ b) = phases_started a @ phases_started b"
  by (induction a rule: phases_started.induct) simp_all

lemma phases_started_warnings: "phases_started (fst (warn_errors es)) = []"
  by (induction es) (simp_all split: option.splits)

lemma phase_failed_fields:
  "logged (phase_failed ph e p) = logged p @ [PhaseFailed ph e]"
  "ps_errors (pipeline_stats (phase_failed ph e p))
     = ps_errors (pipeline_stats p) @ [\<lparr>pe_phase = ph, pe_error = e\<rparr>]"
  "raw_data (phase_failed ph e p) = raw_data p"
  "transformed_data (phase_failed ph e p) = transformed_data p"
  by (simp_all add: phase_failed_def log_line_def)

text \<open>The three phases, each by what it returns and what it leaves.\<close>

lemma extract_phase_fails:
  assumes "extracted W = Inl e"
  shows "extract_phase W p = (False, phase_failed Extract e (log_line (PhaseStarted Extract) p))"
  using assms by (simp add: extract_phase_def)

lemma extract_phase_returns:
  assumes "extracted W = Inr raw"
  shows "fst (extract_phase W p) = True"
    and "raw_data (snd (extract_phase W p)) = Some raw"
    and "phases_started (logged (snd (extract_phase W p))) = phases_started (logged p) @ [Extract]"
    and "ps_errors (pipeline_stats (snd (extract_phase W p))) = ps_errors (pipeline_stats p)"
  using assms by (simp_all add: extract_phase_def log_line_def phases_started_append)

lemma transform_phase_fails:
  assumes "raw_data p = Some raw" and "transform_raises (library W) raw = Some e"
  shows "fst (transform_phase W p) = False"
    and "phases_started (logged (snd (transform_phase W p)))
           = phases_started (logged p) @ [Transform]"
    and "ps_errors (pipeline_stats (snd (transform_phase W p)))
           = ps_errors (pipeline_stats p) @ [\<lparr>pe_phase = Transform, pe_error = e\<rparr>]"
  using assms
  by (auto simp: transform_phase_def transform_raises_def log_line_def phase_failed_def Let_def
      phases_started_append phases_started_warnings split: sum.splits if_splits)

lemma transform_phase_returns:
  assumes "raw_data p = Some raw" and "transform_raises (library W) raw = None"
  shows "fst (transform_phase W p) = True"
    and "phases_started (logged (snd (transform_phase W p)))
           = phases_started (logged p) @ [Transform]"
    and "ps_errors (pipeline_stats (snd (transform_phase W p))) = ps_errors (pipeline_stats p)"
  using assms
  by (auto simp: transform_phase_def transform_raises_def log_line_def phase_failed_def Let_def
      phases_started_append phases_started_warnings split: sum.splits if_splits)

lemma load_phase_cases:
  "phases_started (logged (snd (load_phase W p))) = phases_started (logged p) @ [Load]
   \<and> (ps_errors (pipeline_stats (snd (load_phase W p))) = ps_errors (pipeline_stats p)
      \<or> (\<exists>e. ps_errors (pipeline_stats (snd (load_phase W p)))
                = ps_errors (pipeline_stats p) @ [\<lparr>pe_phase = Load, pe_error = e\<rparr>]))"
  by (auto simp: load_phase_def log_line_def phase_failed_def Let_def phases_started_append
      split: sum.splits option.splits)

lemma run_unfold:
  "run W p0 =
     (let p1 = (log_line PipelineStarted p0)
                 \<lparr>pipeline_stats := (pipeline_stats p0)\<lparr>start_time := Some (now_at_start W)\<rparr>\<rparr>;
          p2 = snd (extract_phase W p1);
          p3 = (if fst (extract_phase W p1) then snd (transform_phase W p2) else p2);
          p4 = (if fst (extract_phase W p1) \<and> fst (transform_phase W p2)
                then snd (load_phase W p3) else p3);
          r = (pipeline_stats p4)\<lparr>end_time := Some (now_at_end W),
                                   duration := Some (now_at_end W - now_at_start W)\<rparr>
      in (r, (log_line PipelineComplete p4)\<lparr>pipeline_stats := r\<rparr>))"
  by (simp add: run_def Let_def case_prod_unfold log_line_def)

text \<open>Neither the transform phase nor the load phase touches the time of the start.\<close>

lemma extract_phase_start:
  "start_time (pipeline_stats (snd (extract_phase W p))) = start_time (pipeline_stats p)"
  by (simp add: extract_phase_def log_line_def phase_failed_def Let_def split: sum.splits)

lemma transform_phase_start:
  "start_time (pipeline_stats (snd (transform_phase W p))) = start_time (pipeline_stats p)"
  by (simp add: transform_phase_def log_line_def phase_failed_def Let_def
      split: sum.splits option.splits prod.splits)

lemma load_phase_start:
  "start_time (pipeline_stats (snd (load_phase W p))) = start_time (pipeline_stats p)"
  by (simp add: load_phase_def log_line_def phase_failed_def Let_def
      split: sum.splits option.splits prod.splits)




end
